theory Spec2Isabelle
  imports Main "HOL-Library.Word"
begin

unbundle bit_operations_syntax

section \<open>Vulkan command recorder (VKCommandBuffer.cpp)\<close>

type_synonym u32 = "32 word"
type_synonym VkCommandBuffer = nat
type_synonym VkFence = nat

subsection \<open>Constants and data\<close>

definition g_maxNumViewportsPerBatch :: u32 where
  "g_maxNumViewportsPerBatch = 16"

text \<open>\<open>ClearFlags\<close> (CommandBufferFlags.h); the flags argument is a C \<open>long\<close>.\<close>

definition ClearFlags_Color :: int where "ClearFlags_Color = push_bit 0 1"
definition ClearFlags_Depth :: int where "ClearFlags_Depth = push_bit 1 1"
definition ClearFlags_Stencil :: int where "ClearFlags_Stencil = push_bit 2 1"
definition ClearFlags_ColorDepth :: int where
  "ClearFlags_ColorDepth = ClearFlags_Color OR ClearFlags_Depth"
definition ClearFlags_DepthStencil :: int where
  "ClearFlags_DepthStencil = ClearFlags_Depth OR ClearFlags_Stencil"
definition ClearFlags_All :: int where
  "ClearFlags_All = ClearFlags_Color OR ClearFlags_Depth OR ClearFlags_Stencil"

text \<open>\<open>VkImageAspectFlagBits\<close> of the Vulkan headers.\<close>

definition VK_IMAGE_ASPECT_COLOR_BIT :: u32 where "VK_IMAGE_ASPECT_COLOR_BIT = 1"
definition VK_IMAGE_ASPECT_DEPTH_BIT :: u32 where "VK_IMAGE_ASPECT_DEPTH_BIT = 2"
definition VK_IMAGE_ASPECT_STENCIL_BIT :: u32 where "VK_IMAGE_ASPECT_STENCIL_BIT = 4"

definition g_maxNumColorAttachments :: u32 where
  "g_maxNumColorAttachments = 32"
definition g_maxNumAttachments :: u32 where
  "g_maxNumAttachments = g_maxNumColorAttachments + 1"

type_synonym VkExtent2D = "u32 \<times> u32"

text \<open>
  \<open>VkClearValue\<close> is a union of a colour (\<open>float32[4]\<close>) and a depth-stencil pair; the
  float type is the parameter \<open>'f\<close>, no float arithmetic happens here.
\<close>

datatype 'f VkClearValue =
    ClearColor 'f 'f 'f 'f
  | ClearDepthStencil 'f u32

record 'f VkClearAttachment =
  aspectMask :: u32
  colorAttachment :: u32
  clearValue :: "'f VkClearValue"

record VkClearRect =
  rect_offset :: "int \<times> int"
  rect_extent :: VkExtent2D
  baseArrayLayer :: u32
  layerCount :: u32

text \<open>
  A native \<open>vkCmdClearAttachments\<close> call: command buffer, attachment count, the leading
  cells of the attachment array (a cell never written is \<open>None\<close>), and the clear rectangles.
\<close>

datatype 'f clear_call =
  vkCmdClearAttachments VkCommandBuffer u32 "'f VkClearAttachment option list" "VkClearRect list"

text \<open>
  The members of \<open>VKCommandBuffer\<close>. Handles are numbers, \<open>VK_NULL_HANDLE\<close> is 0. The
  iterator \<open>commandBufferActiveIt_\<close> is its position in \<open>commandBufferActiveList_\<close>; the
  position equal to the length of the list is \<open>end()\<close>.
\<close>

record 'f VKCommandBuffer =
  vk_commandPool :: nat
  vk_queuePresentFamily :: u32
  vk_commandBufferList :: "VkCommandBuffer list"
  vk_commandBufferActiveList :: "bool list"
  vk_commandBufferActiveIt :: nat
  vk_commandBuffer :: VkCommandBuffer
  vk_recordingFenceList :: "VkFence list"
  vk_recordingFence :: VkFence
  vk_renderPass :: nat
  vk_framebuffer :: nat
  vk_framebufferExtent :: VkExtent2D
  vk_scissorEnabled :: bool
  vk_scissorRectInvalidated :: bool
  vk_numColorAttachments :: u32
  vk_hasDSVAttachment :: bool
  vk_clearColor :: "'f \<times> 'f \<times> 'f \<times> 'f"
  vk_clearDepthStencil :: "'f \<times> u32"

subsection \<open>Viewport batches\<close>

text \<open>
  A native \<open>vkCmdSetViewport\<close> call: command buffer, first viewport, viewport count, and
  the \<open>count\<close> leading cells of the stack buffer \<open>viewportsVK\<close> the driver reads. A cell of the
  buffer that was never written is \<open>None\<close>.
\<close>

datatype 'w viewport_call = vkCmdSetViewport VkCommandBuffer u32 u32 "'w option list"

text \<open>
  The inner loop of \<open>SetViewports\<close>:
  \<^verbatim>\<open>for (first = i; i < first + count; ++i) Convert(viewportsVK[i - first], viewports[i]);\<close>
  \<open>first + count\<close> is 32-bit arithmetic. Reading \<open>viewports\<close> beyond the caller's array or
  writing beyond the 16 cells of \<open>viewportsVK\<close> is undefined behaviour in the source; the
  model returns \<open>None\<close> there. \<open>Convert\<close> (VKTypes) is a parameter.
\<close>

function SetViewports_convert ::
  "('v \<Rightarrow> 'w) \<Rightarrow> 'v list \<Rightarrow> u32 \<Rightarrow> u32 \<Rightarrow> u32 \<Rightarrow> 'w option list \<Rightarrow> (u32 \<times> 'w option list) option"
where
  "SetViewports_convert Convert viewports first count i viewportsVK =
     (if i < first + count then
        (if unat i < length viewports \<and> unat (i - first) < length viewportsVK then
           SetViewports_convert Convert viewports first count (i + 1)
             (viewportsVK[unat (i - first) := Some (Convert (viewports ! unat i))])
         else None)
      else Some (i, viewportsVK))"
  by pat_completeness auto
termination
proof (relation "measure (\<lambda>(Convert, viewports, first, count, i, viewportsVK). unat (first + count) - unat i)")
  show "wf (measure (\<lambda>(Convert :: 'v \<Rightarrow> 'w, viewports :: 'v list, first :: u32, count :: u32, i :: u32, viewportsVK :: 'w option list). unat (first + count) - unat i))"
    by simp
next
  fix Convert :: "'v \<Rightarrow> 'w" and viewports :: "'v list" and first count i :: u32
    and viewportsVK :: "'w option list"
  assume lt: "i < first + count"
  then have "unat i < unat (first + count)"
    by (simp add: word_less_nat_alt)
  moreover from lt have "unat (i + 1) = unat i + 1"
    by unat_arith
  ultimately show "((Convert, viewports, first, count, i + 1,
      viewportsVK[unat (i - first) := Some (Convert (viewports ! unat i))]),
     (Convert, viewports, first, count, i, viewportsVK))
    \<in> measure (\<lambda>(Convert, viewports, first, count, i, viewportsVK). unat (first + count) - unat i)"
    by simp
qed

text \<open>
  The outer loop of \<open>SetViewports\<close>:
  \<^verbatim>\<open>for (i = 0, first = 0, count = 0; i < numViewports; numViewports -= count)\<close>
  with \<open>count = std::min(numViewports, g_maxNumViewportsPerBatch)\<close>, one native call per round.
  The loop test compares the absolute index \<open>i\<close> with the remaining \<open>numViewports\<close>.
\<close>

function SetViewports_loop ::
  "('v \<Rightarrow> 'w) \<Rightarrow> VkCommandBuffer \<Rightarrow> 'v list \<Rightarrow> u32 \<Rightarrow> u32 \<Rightarrow> 'w option list
     \<Rightarrow> 'w viewport_call list \<Rightarrow> 'w viewport_call list option"
where
  "SetViewports_loop Convert cb viewports i numViewports viewportsVK calls =
     (if i < numViewports then
        (case SetViewports_convert Convert viewports i (min numViewports g_maxNumViewportsPerBatch) i viewportsVK of
           None \<Rightarrow> None
         | Some (i', viewportsVK') \<Rightarrow>
             SetViewports_loop Convert cb viewports i'
               (numViewports - min numViewports g_maxNumViewportsPerBatch) viewportsVK'
               (calls @ [vkCmdSetViewport cb i (min numViewports g_maxNumViewportsPerBatch)
                          (take (unat (min numViewports g_maxNumViewportsPerBatch)) viewportsVK')]))
      else Some calls)"
  by pat_completeness auto
termination
proof (relation "measure (\<lambda>(Convert, cb, viewports, i, numViewports, viewportsVK, calls). unat numViewports)")
  show "wf (measure (\<lambda>(Convert :: 'v \<Rightarrow> 'w, cb :: VkCommandBuffer, viewports :: 'v list, i :: u32,
      numViewports :: u32, viewportsVK :: 'w option list, calls :: 'w viewport_call list). unat numViewports))"
    by simp
next
  fix Convert :: "'v \<Rightarrow> 'w" and cb :: VkCommandBuffer and viewports :: "'v list"
    and i numViewports i' :: u32 and viewportsVK viewportsVK' :: "'w option list"
    and calls :: "'w viewport_call list" and x2 :: "u32 \<times> 'w option list"
  assume lt: "i < numViewports"
  let ?count = "min numViewports g_maxNumViewportsPerBatch"
  from lt have nz: "numViewports \<noteq> 0"
    by (auto simp: word_less_nat_alt)
  then have cnz: "?count \<noteq> 0"
    by (simp add: min_def g_maxNumViewportsPerBatch_def)
  have cle: "?count \<le> numViewports"
    by simp
  have "unat (numViewports - ?count) = unat numViewports - unat ?count"
    using cle by (simp add: unat_sub)
  moreover have "0 < unat ?count"
    using cnz by (simp add: unat_gt_0)
  moreover have "unat ?count \<le> unat numViewports"
    using cle by (simp add: word_le_nat_alt)
  ultimately have "unat (numViewports - ?count) < unat numViewports"
    by arith
  then show "((Convert, cb, viewports, i', numViewports - ?count, viewportsVK',
      calls @ [vkCmdSetViewport cb i ?count (take (unat ?count) viewportsVK')]),
     (Convert, cb, viewports, i, numViewports, viewportsVK, calls))
    \<in> measure (\<lambda>(Convert, cb, viewports, i, numViewports, viewportsVK, calls). unat numViewports)"
    by simp
qed

text \<open>
  \<open>SetViewports\<close>: the stack buffer \<open>viewportsVK\<close> has \<open>g_maxNumViewportsPerBatch\<close>
  uninitialised cells; the result is the sequence of native calls issued.
\<close>

definition SetViewports ::
  "('v \<Rightarrow> 'w) \<Rightarrow> 'f VKCommandBuffer \<Rightarrow> u32 \<Rightarrow> 'v list \<Rightarrow> 'w viewport_call list option"
where
  "SetViewports Convert s numViewports viewports =
     SetViewports_loop Convert (vk_commandBuffer s) viewports 0 numViewports
       (replicate (unat g_maxNumViewportsPerBatch) None) []"

subsection \<open>Clear\<close>

definition GetDepthStencilAspectMask :: "int \<Rightarrow> u32" where
  "GetDepthStencilAspectMask flags =
     (let aspectMask = 0;
          aspectMask = (if flags AND ClearFlags_Depth \<noteq> 0
                        then aspectMask OR VK_IMAGE_ASPECT_DEPTH_BIT else aspectMask);
          aspectMask = (if flags AND ClearFlags_Stencil \<noteq> 0
                        then aspectMask OR VK_IMAGE_ASPECT_STENCIL_BIT else aspectMask)
      in aspectMask)"

text \<open>
  The colour loop of \<open>Clear\<close>:
  \<^verbatim>\<open>for (std::uint32_t i = 0; i < numAttachments; ++i) attachments[i] = {COLOR, i, clearColor_};\<close>
\<close>

function Clear_colors ::
  "'f \<times> 'f \<times> 'f \<times> 'f \<Rightarrow> u32 \<Rightarrow> u32 \<Rightarrow> 'f VkClearAttachment option list
     \<Rightarrow> 'f VkClearAttachment option list"
where
  "Clear_colors clearColor numAttachments i attachments =
     (if i < numAttachments then
        Clear_colors clearColor numAttachments (i + 1)
          (attachments[unat i := Some \<lparr> aspectMask = VK_IMAGE_ASPECT_COLOR_BIT,
                                         colorAttachment = i,
                                         clearValue = (case clearColor of (r, g, b, a) \<Rightarrow> ClearColor r g b a) \<rparr>])
      else attachments)"
  by pat_completeness auto
termination
proof (relation "measure (\<lambda>(clearColor, numAttachments, i, attachments). unat numAttachments - unat i)")
  show "wf (measure (\<lambda>(clearColor :: 'f \<times> 'f \<times> 'f \<times> 'f, numAttachments :: u32, i :: u32,
      attachments :: 'f VkClearAttachment option list). unat numAttachments - unat i))"
    by simp
next
  fix clearColor :: "'f \<times> 'f \<times> 'f \<times> 'f" and numAttachments i :: u32
    and attachments :: "'f VkClearAttachment option list"
  assume lt: "i < numAttachments"
  then have "unat i < unat numAttachments"
    by (simp add: word_less_nat_alt)
  moreover from lt have "unat (i + 1) = unat i + 1"
    by unat_arith
  ultimately show "((clearColor, numAttachments, i + 1,
      attachments[unat i := Some \<lparr> aspectMask = VK_IMAGE_ASPECT_COLOR_BIT, colorAttachment = i,
        clearValue = (case clearColor of (r, g, b, a) \<Rightarrow> ClearColor r g b a) \<rparr>]),
     (clearColor, numAttachments, i, attachments))
    \<in> measure (\<lambda>(clearColor, numAttachments, i, attachments). unat numAttachments - unat i)"
    by simp
qed

definition ClearFramebufferAttachments ::
  "'f VKCommandBuffer \<Rightarrow> u32 \<Rightarrow> 'f VkClearAttachment option list \<Rightarrow> 'f clear_call list"
where
  "ClearFramebufferAttachments s numAttachments attachments =
     (if numAttachments > 0 then
        [vkCmdClearAttachments (vk_commandBuffer s) numAttachments
           (take (unat numAttachments) attachments)
           [\<lparr> rect_offset = (0, 0), rect_extent = vk_framebufferExtent s,
              baseArrayLayer = 0, layerCount = 1 \<rparr>]]
      else [])"

text \<open>
  \<open>Clear\<close>: the stack array \<open>attachments\<close> has \<open>g_maxNumAttachments\<close> uninitialised cells.
  The result is the sequence of native calls issued; the recorder's members do not change.
\<close>

definition Clear :: "int \<Rightarrow> 'f VKCommandBuffer \<Rightarrow> 'f clear_call list" where
  "Clear flags s =
     (let attachments = replicate (unat g_maxNumAttachments) None;
          numAttachments = 0;
          (numAttachments, attachments) =
            (if flags AND ClearFlags_Color \<noteq> 0 then
               (let n = min (vk_numColorAttachments s) g_maxNumColorAttachments
                in (n, Clear_colors (vk_clearColor s) n 0 attachments))
             else (numAttachments, attachments));
          (numAttachments, attachments) =
            (if flags AND ClearFlags_DepthStencil \<noteq> 0 \<and> vk_hasDSVAttachment s then
               (numAttachments + 1,
                attachments[unat numAttachments :=
                  Some \<lparr> aspectMask = GetDepthStencilAspectMask flags,
                         colorAttachment = 0,
                         clearValue = (case vk_clearDepthStencil s of (d, st) \<Rightarrow> ClearDepthStencil d st) \<rparr>])
             else (numAttachments, attachments))
      in ClearFramebufferAttachments s numAttachments attachments)"

subsection \<open>The native device\<close>

text \<open>
  The Vulkan driver is outside the repository. It is modelled by the handles it has handed
  out, by the fences it knows (\<open>Some True\<close>: a signal operation has been submitted for the
  fence, \<open>Some False\<close>: created or reset and no signal submitted), and by the sequence of
  native calls received. The result codes the driver returns are parameters of the functions
  that ask for them.
\<close>

type_synonym VkResult = int

definition VK_SUCCESS :: VkResult where
  "VK_SUCCESS = 0"

definition VK_COMMAND_BUFFER_USAGE_SIMULTANEOUS_USE_BIT :: u32 where
  "VK_COMMAND_BUFFER_USAGE_SIMULTANEOUS_USE_BIT = 4"

definition VK_COMMAND_POOL_CREATE_RESET_COMMAND_BUFFER_BIT :: u32 where
  "VK_COMMAND_POOL_CREATE_RESET_COMMAND_BUFFER_BIT = 2"

datatype vk_call =
    vkCreateCommandPool u32 u32
  | vkAllocateCommandBuffers nat u32
  | vkCreateFence u32
  | vkQueueSubmit u32 VkFence
  | vkWaitForFences VkFence
  | vkResetFences VkFence
  | vkBeginCommandBuffer VkCommandBuffer u32
  | vkEndCommandBuffer VkCommandBuffer
  | vkCmdBeginRenderPass VkCommandBuffer nat nat VkExtent2D
  | vkCmdEndRenderPass VkCommandBuffer

record VkDevice =
  dev_handles :: nat
  dev_fences :: "VkFence \<rightharpoonup> bool"
  dev_calls :: "vk_call list"

text \<open>
  What can end a call other than a normal return: the \<open>std::runtime_error\<close> of
  \<open>VKThrowIfFailed\<close>, the undefined behaviours of the container accesses, and a fence wait
  with timeout \<open>UINT64_MAX\<close> on a fence nobody will signal.
\<close>

datatype vk_error =
    RuntimeError string
  | PastTheEndDereference
  | IndexOutOfRange
  | FrontOfEmptyVector
  | FenceWaitNeverReturns

text \<open>\<open>VKThrowIfFailed\<close> (VKCore, not among the sources): throws unless the result is \<open>VK_SUCCESS\<close>.\<close>

definition VKThrowIfFailed :: "VkResult \<Rightarrow> string \<Rightarrow> vk_error + unit" where
  "VKThrowIfFailed result info = (if result \<noteq> VK_SUCCESS then Inl (RuntimeError info) else Inr ())"

text \<open>\<open>std::vector::resize\<close>.\<close>

definition resize :: "'a list \<Rightarrow> nat \<Rightarrow> 'a \<Rightarrow> 'a list" where
  "resize xs n v = take n xs @ replicate (n - length xs) v"

subsection \<open>Construction\<close>

definition CreateCommandPool ::
  "VkResult \<Rightarrow> u32 \<Rightarrow> VkDevice \<times> 'f VKCommandBuffer \<Rightarrow> vk_error + (VkDevice \<times> 'f VKCommandBuffer)"
where
  "CreateCommandPool result queueFamilyIndex ds =
     (case ds of (d, s) \<Rightarrow>
        (let pool = Suc (dev_handles d);
             d1 = d\<lparr> dev_handles := pool,
                     dev_calls := dev_calls d @
                       [vkCreateCommandPool VK_COMMAND_POOL_CREATE_RESET_COMMAND_BUFFER_BIT queueFamilyIndex] \<rparr>
         in case VKThrowIfFailed result ''failed to create Vulkan command pool'' of
              Inl e \<Rightarrow> Inl e
            | Inr _ \<Rightarrow> Inr (d1, s\<lparr> vk_commandPool := pool \<rparr>)))"

text \<open>
  \<open>CreateCommandBuffers\<close>. The count handed to the driver is
  \<open>static_cast<std::uint32_t>(bufferCount)\<close>; the driver writes that many fresh handles into
  the leading cells of \<open>commandBufferList_\<close>. The activity list is resized to \<open>bufferCount\<close>
  cells (\<open>false\<close>) and the iterator is set to \<open>end()\<close>.
\<close>

definition CreateCommandBuffers ::
  "VkResult \<Rightarrow> nat \<Rightarrow> VkDevice \<times> 'f VKCommandBuffer \<Rightarrow> vk_error + (VkDevice \<times> 'f VKCommandBuffer)"
where
  "CreateCommandBuffers result bufferCount ds =
     (case ds of (d, s) \<Rightarrow>
        (let list0 = resize (vk_commandBufferList s) bufferCount 0;
             count = (word_of_nat bufferCount :: u32);
             handles = map (\<lambda>k. dev_handles d + Suc k) [0..<unat count];
             list1 = handles @ drop (unat count) list0;
             d1 = d\<lparr> dev_handles := dev_handles d + unat count,
                     dev_calls := dev_calls d @ [vkAllocateCommandBuffers (vk_commandPool s) count] \<rparr>
         in case VKThrowIfFailed result ''failed to allocate Vulkan command buffers'' of
              Inl e \<Rightarrow> Inl e
            | Inr _ \<Rightarrow>
                (case list1 of
                   [] \<Rightarrow> Inl FrontOfEmptyVector
                 | front # _ \<Rightarrow>
                     (let activeList = resize (vk_commandBufferActiveList s) bufferCount False
                      in Inr (d1, s\<lparr> vk_commandBufferList := list1,
                                      vk_commandBuffer := front,
                                      vk_commandBufferActiveList := activeList,
                                      vk_commandBufferActiveIt := length activeList \<rparr>)))))"

text \<open>
  The loop of \<open>CreateRecordingFences\<close> over the cells of \<open>recordingFenceList_\<close>, by position:
  \<open>vkCreateFence\<close> with \<open>flags = 0\<close> (an unsignaled fence), then
  \<open>vkQueueSubmit(graphicsQueue, 0, nullptr, fence)\<close>, a submission of no work that signals
  the fence.
\<close>

fun CreateRecordingFences_loop ::
  "(nat \<Rightarrow> VkResult) \<Rightarrow> nat list \<Rightarrow> VkDevice \<times> VkFence list \<Rightarrow> vk_error + (VkDevice \<times> VkFence list)"
where
  "CreateRecordingFences_loop createResult [] df = Inr df"
| "CreateRecordingFences_loop createResult (k # ks) df =
     (case df of (d, fences) \<Rightarrow>
        (let fence = Suc (dev_handles d);
             d1 = d\<lparr> dev_handles := fence,
                     dev_fences := (dev_fences d)(fence \<mapsto> False),
                     dev_calls := dev_calls d @ [vkCreateFence 0] \<rparr>
         in case VKThrowIfFailed (createResult k) ''failed to create Vulkan fence'' of
              Inl e \<Rightarrow> Inl e
            | Inr _ \<Rightarrow>
                (let d2 = d1\<lparr> dev_fences := (dev_fences d1)(fence \<mapsto> True),
                              dev_calls := dev_calls d1 @ [vkQueueSubmit 0 fence] \<rparr>
                 in CreateRecordingFences_loop createResult ks (d2, fences[k := fence]))))"

definition CreateRecordingFences ::
  "(nat \<Rightarrow> VkResult) \<Rightarrow> nat \<Rightarrow> VkDevice \<times> 'f VKCommandBuffer \<Rightarrow> vk_error + (VkDevice \<times> 'f VKCommandBuffer)"
where
  "CreateRecordingFences createResult numFences ds =
     (case ds of (d, s) \<Rightarrow>
        (let list0 = resize (vk_recordingFenceList s) numFences 0
         in case CreateRecordingFences_loop createResult [0..<length list0] (d, list0) of
              Inl e \<Rightarrow> Inl e
            | Inr (d1, list1) \<Rightarrow>
                (case list1 of
                   [] \<Rightarrow> Inl FrontOfEmptyVector
                 | front # _ \<Rightarrow>
                     Inr (d1, s\<lparr> vk_recordingFenceList := list1, vk_recordingFence := front \<rparr>))))"

text \<open>
  The native result codes the constructor is given by the driver.
\<close>

record ctor_results =
  res_vkCreateCommandPool :: VkResult
  res_vkAllocateCommandBuffers :: VkResult
  res_vkCreateFence :: "nat \<Rightarrow> VkResult"

text \<open>
  The constructor. The class declaration is not among the sources: \<open>members\<close> gives the
  members their declared initial values; the three vectors start empty.
\<close>

definition VKCommandBuffer_ctor ::
  "ctor_results \<Rightarrow> VkDevice \<Rightarrow> 'f VKCommandBuffer \<Rightarrow> nat \<Rightarrow> u32 \<Rightarrow> u32
     \<Rightarrow> vk_error + (VkDevice \<times> 'f VKCommandBuffer)"
where
  "VKCommandBuffer_ctor res device members bufferCount graphicsFamily presentFamily =
     (let s0 = members\<lparr> vk_queuePresentFamily := presentFamily,
                         vk_commandBufferList := [],
                         vk_commandBufferActiveList := [],
                         vk_recordingFenceList := [] \<rparr>
      in case CreateCommandPool (res_vkCreateCommandPool res) graphicsFamily (device, s0) of
           Inl e \<Rightarrow> Inl e
         | Inr ds1 \<Rightarrow>
             (case CreateCommandBuffers (res_vkAllocateCommandBuffers res) bufferCount ds1 of
                Inl e \<Rightarrow> Inl e
              | Inr ds2 \<Rightarrow> CreateRecordingFences (res_vkCreateFence res) bufferCount ds2))"

subsection \<open>Recording slots\<close>

definition SetPresentIndex :: "u32 \<Rightarrow> 'f VKCommandBuffer \<Rightarrow> vk_error + 'f VKCommandBuffer" where
  "SetPresentIndex idx s =
     (if unat idx < length (vk_commandBufferList s)
         \<and> unat idx \<le> length (vk_commandBufferActiveList s)
         \<and> unat idx < length (vk_recordingFenceList s)
      then Inr (s\<lparr> vk_commandBuffer := vk_commandBufferList s ! unat idx,
                    vk_commandBufferActiveIt := 0 + unat idx,
                    vk_recordingFence := vk_recordingFenceList s ! unat idx \<rparr>)
      else Inl IndexOutOfRange)"

text \<open>\<open>IsCommandBufferActive\<close>: \<^verbatim>\<open>return *commandBufferActiveIt_;\<close>\<close>

definition IsCommandBufferActive :: "'f VKCommandBuffer \<Rightarrow> vk_error + bool" where
  "IsCommandBufferActive s =
     (if vk_commandBufferActiveIt s < length (vk_commandBufferActiveList s)
      then Inr (vk_commandBufferActiveList s ! vk_commandBufferActiveIt s)
      else Inl PastTheEndDereference)"

text \<open>The assignment \<^verbatim>\<open>*commandBufferActiveIt_ = b;\<close>\<close>

definition store_active :: "bool \<Rightarrow> 'f VKCommandBuffer \<Rightarrow> vk_error + 'f VKCommandBuffer" where
  "store_active b s =
     (if vk_commandBufferActiveIt s < length (vk_commandBufferActiveList s)
      then Inr (s\<lparr> vk_commandBufferActiveList :=
                      (vk_commandBufferActiveList s)[vk_commandBufferActiveIt s := b] \<rparr>)
      else Inl PastTheEndDereference)"

text \<open>
  \<open>BeginCommandBuffer\<close>: wait for the slot's fence without timeout, reset it, open the native
  recording scope, store the activity state. The wait returns only for a fence with a signal
  submitted.
\<close>

definition BeginCommandBuffer ::
  "VkResult \<Rightarrow> VkDevice \<times> 'f VKCommandBuffer \<Rightarrow> vk_error + (VkDevice \<times> 'f VKCommandBuffer)"
where
  "BeginCommandBuffer result ds =
     (case ds of (d, s) \<Rightarrow>
        (if dev_fences d (vk_recordingFence s) \<noteq> Some True then Inl FenceWaitNeverReturns
         else
           (let d1 = d\<lparr> dev_calls := dev_calls d @ [vkWaitForFences (vk_recordingFence s)] \<rparr>;
                d2 = d1\<lparr> dev_fences := (dev_fences d1)(vk_recordingFence s \<mapsto> False),
                         dev_calls := dev_calls d1 @ [vkResetFences (vk_recordingFence s)] \<rparr>;
                d3 = d2\<lparr> dev_calls := dev_calls d2 @
                         [vkBeginCommandBuffer (vk_commandBuffer s)
                            VK_COMMAND_BUFFER_USAGE_SIMULTANEOUS_USE_BIT] \<rparr>
            in case VKThrowIfFailed result ''failed to begin Vulkan command buffer'' of
                 Inl e \<Rightarrow> Inl e
               | Inr _ \<Rightarrow>
                   (case store_active True s of
                      Inl e \<Rightarrow> Inl e
                    | Inr s1 \<Rightarrow> Inr (d3, s1)))))"

text \<open>
  \<open>EndCommandBuffer\<close>: close the native recording scope, throw if the driver reports a
  failure, store the activity state. The activity state is not read.
\<close>

definition EndCommandBuffer ::
  "VkResult \<Rightarrow> VkDevice \<times> 'f VKCommandBuffer \<Rightarrow> vk_error + (VkDevice \<times> 'f VKCommandBuffer)"
where
  "EndCommandBuffer result ds =
     (case ds of (d, s) \<Rightarrow>
        (let d1 = d\<lparr> dev_calls := dev_calls d @ [vkEndCommandBuffer (vk_commandBuffer s)] \<rparr>
         in case VKThrowIfFailed result ''failed to end Vulkan command buffer'' of
              Inl e \<Rightarrow> Inl e
            | Inr _ \<Rightarrow>
                (case store_active False s of
                   Inl e \<Rightarrow> Inl e
                 | Inr s1 \<Rightarrow> Inr (d1, s1))))"

subsection \<open>Render passes and render targets\<close>

definition VK_NULL_HANDLE :: nat where
  "VK_NULL_HANDLE = 0"

definition BeginRenderPass ::
  "nat \<Rightarrow> nat \<Rightarrow> VkExtent2D \<Rightarrow> VkDevice \<times> 'f VKCommandBuffer \<Rightarrow> VkDevice \<times> 'f VKCommandBuffer"
where
  "BeginRenderPass renderPass framebuffer extent ds =
     (case ds of (d, s) \<Rightarrow>
        (d\<lparr> dev_calls := dev_calls d @
              [vkCmdBeginRenderPass (vk_commandBuffer s) renderPass framebuffer extent] \<rparr>, s))"

definition EndRenderPass :: "VkDevice \<times> 'f VKCommandBuffer \<Rightarrow> VkDevice \<times> 'f VKCommandBuffer" where
  "EndRenderPass ds =
     (case ds of (d, s) \<Rightarrow>
        (d\<lparr> dev_calls := dev_calls d @ [vkCmdEndRenderPass (vk_commandBuffer s)] \<rparr>, s))"

definition SetRenderPass ::
  "nat \<Rightarrow> nat \<Rightarrow> VkExtent2D \<Rightarrow> VkDevice \<times> 'f VKCommandBuffer \<Rightarrow> VkDevice \<times> 'f VKCommandBuffer"
where
  "SetRenderPass renderPass framebuffer extent ds =
     (let ds1 = (if vk_renderPass (snd ds) \<noteq> VK_NULL_HANDLE then EndRenderPass ds else ds)
      in if renderPass \<noteq> VK_NULL_HANDLE then
           (case BeginRenderPass renderPass framebuffer extent ds1 of (d2, s2) \<Rightarrow>
              (d2, s2\<lparr> vk_renderPass := renderPass,
                       vk_framebuffer := framebuffer,
                       vk_framebufferExtent := extent,
                       vk_scissorRectInvalidated := True \<rparr>))
         else ds1)"

text \<open>
  \<open>VKRenderTarget\<close> is not among the sources; a render target is what its getters return.
\<close>

record VKRenderTarget =
  GetVkRenderPass :: nat
  GetVkFramebuffer :: nat
  GetVkExtent :: VkExtent2D
  VK_GetNumColorAttachments :: u32
  VK_HasDepthAttachment :: bool
  VK_HasStencilAttachment :: bool

definition SetRenderTarget ::
  "VkResult \<Rightarrow> VKRenderTarget \<Rightarrow> VkDevice \<times> 'f VKCommandBuffer
     \<Rightarrow> vk_error + (VkDevice \<times> 'f VKCommandBuffer)"
where
  "SetRenderTarget beginResult renderTargetVK ds =
     (case IsCommandBufferActive (snd ds) of
        Inl e \<Rightarrow> Inl e
      | Inr active \<Rightarrow>
          (case (if \<not> active then BeginCommandBuffer beginResult ds else Inr ds) of
             Inl e \<Rightarrow> Inl e
           | Inr ds1 \<Rightarrow>
               (case SetRenderPass (GetVkRenderPass renderTargetVK) (GetVkFramebuffer renderTargetVK)
                       (GetVkExtent renderTargetVK) ds1 of
                  (d2, s2) \<Rightarrow>
                    Inr (d2, s2\<lparr> vk_numColorAttachments := VK_GetNumColorAttachments renderTargetVK,
                                  vk_hasDSVAttachment :=
                                    (VK_HasDepthAttachment renderTargetVK
                                       \<or> VK_HasStencilAttachment renderTargetVK) \<rparr>))))"

section \<open>OpenGL render target (GLRenderTarget.cpp)\<close>

subsection \<open>Constants and data\<close>

type_synonym GLenum = u32
type_synonym GLbitfield = u32
type_synonym GLuint = nat

definition g_maxFramebufferAttachments :: nat where
  "g_maxFramebufferAttachments = 32"

text \<open>Values of the OpenGL headers.\<close>

definition GL_NONE :: GLenum where "GL_NONE = 0"
definition GL_BACK :: GLenum where "GL_BACK = 1029"
definition GL_STENCIL_INDEX :: GLenum where "GL_STENCIL_INDEX = 6401"
definition GL_DEPTH_COMPONENT :: GLenum where "GL_DEPTH_COMPONENT = 6402"
definition GL_RED :: GLenum where "GL_RED = 6403"
definition GL_RGBA :: GLenum where "GL_RGBA = 6408"
definition GL_DEPTH_STENCIL :: GLenum where "GL_DEPTH_STENCIL = 34041"
definition GL_DEPTH_BUFFER_BIT :: GLbitfield where "GL_DEPTH_BUFFER_BIT = 256"
definition GL_STENCIL_BUFFER_BIT :: GLbitfield where "GL_STENCIL_BUFFER_BIT = 1024"
definition GL_COLOR_BUFFER_BIT :: GLbitfield where "GL_COLOR_BUFFER_BIT = 16384"
definition GL_COLOR_ATTACHMENT0 :: GLenum where "GL_COLOR_ATTACHMENT0 = 36064"
definition GL_DEPTH_ATTACHMENT :: GLenum where "GL_DEPTH_ATTACHMENT = 36096"
definition GL_STENCIL_ATTACHMENT :: GLenum where "GL_STENCIL_ATTACHMENT = 36128"
definition GL_DEPTH_STENCIL_ATTACHMENT :: GLenum where "GL_DEPTH_STENCIL_ATTACHMENT = 33306"
definition GL_TEXTURE_1D :: GLenum where "GL_TEXTURE_1D = 3552"
definition GL_TEXTURE_2D :: GLenum where "GL_TEXTURE_2D = 3553"
definition GL_TEXTURE_3D :: GLenum where "GL_TEXTURE_3D = 32879"
definition GL_TEXTURE_2D_MULTISAMPLE :: GLenum where "GL_TEXTURE_2D_MULTISAMPLE = 37120"

datatype AttachmentType = Color | Depth | DepthStencil | Stencil

datatype TextureType =
    Texture1D | Texture2D | Texture3D | TextureCube
  | Texture1DArray | Texture2DArray | TextureCubeArray
  | Texture2DMS | Texture2DMSArray

datatype GLFramebufferTarget = FRAMEBUFFER | DRAW_FRAMEBUFFER | READ_FRAMEBUFFER

text \<open>
  A texture: its GL name, its type, and the internal format the driver reports for its
  level 0 (\<open>GL_TEXTURE_INTERNAL_FORMAT\<close>, read by \<open>GetTexInternalFormat\<close>).
\<close>

record Texture =
  tex_ID :: GLuint
  tex_Type :: TextureType
  tex_InternalFormat :: GLenum

record AttachmentDescriptor =
  att_type :: AttachmentType
  att_texture :: "Texture option"
  att_mipLevel :: u32
  att_arrayLayer :: u32

text \<open>
  \<open>desc_sampleCount\<close> is the value of \<open>desc.multiSampling.SampleCount()\<close>.
\<close>

record RenderTargetDescriptor =
  desc_attachments :: "AttachmentDescriptor list"
  desc_resolution :: "u32 \<times> u32"
  desc_sampleCount :: u32
  desc_customMultiSampling :: bool

text \<open>
  The calls into the GL layer (\<open>GLFramebuffer\<close>, \<open>GLRenderbuffer\<close>, \<open>GLStateManager\<close> and
  the GL entry points used directly), in the order issued.
\<close>

datatype gl_call =
    GenFramebuffer GLuint
  | GenRenderbuffer GLuint
  | StateManager_BindFramebuffer GLFramebufferTarget GLuint
  | StateManager_BindTexture GLuint
  | Framebuffer_Bind GLuint GLFramebufferTarget
  | Framebuffer_Unbind GLuint GLFramebufferTarget
  | Framebuffer_Parameters GLuint int int int int int
  | Framebuffer_Blit int int GLbitfield
  | Framebuffer_AttachRenderbuffer GLenum GLuint
  | Framebuffer_AttachTexture1D GLenum GLenum GLuint int
  | Framebuffer_AttachTexture2D GLenum GLenum GLuint int
  | Framebuffer_AttachTexture3D GLenum GLenum GLuint int int
  | Framebuffer_AttachTextureLayer GLenum GLuint int int
  | Renderbuffer_Storage GLuint GLenum int int int
  | glGetTexLevelParameteriv GLuint
  | glCheckFramebufferStatus
  | glReadBuffer GLenum
  | glDrawBuffer GLenum
  | glDrawBuffers int "GLenum list"

text \<open>
  The members of \<open>GLRenderTarget\<close> (a member \<open>name_\<close> is the field \<open>gl_name\<close>), the
  resolution kept by the base class, and the GL context: the object names handed out so far
  and the calls received. A GL object is its name; 0 is no object.
\<close>

record GLRenderTarget =
  gl_resolution :: "u32 \<times> u32"
  gl_multiSamples :: int
  gl_framebuffer :: GLuint
  gl_framebufferMS :: GLuint
  gl_renderbuffer :: GLuint
  gl_renderbuffersMS :: "GLuint list"
  gl_colorAttachments :: "GLenum list"
  gl_blitMask :: GLbitfield
  gl_names :: nat
  gl_calls :: "gl_call list"

text \<open>
  What the render target asks of code outside the sources: whether the extension
  \<open>ARB_framebuffer_no_attachments\<close> is present, whether \<open>glCheckFramebufferStatus\<close>
  answers \<open>GL_FRAMEBUFFER_COMPLETE\<close> after the calls made so far, whether
  \<open>ValidateMipResolution\<close> of the base class accepts a texture and MIP level, and
  \<open>GLTypes::ToTextureCubeMap\<close>.
\<close>

record gl_env =
  env_no_attachments_ext :: bool
  env_framebuffer_complete :: "gl_call list \<Rightarrow> bool"
  env_mip_resolution_valid :: "Texture \<Rightarrow> u32 \<Rightarrow> bool"
  env_ToTextureCubeMap :: "u32 \<Rightarrow> GLenum"

text \<open>
  The exceptions of the file, and the two undefined behaviours of the stack array
  \<open>internalFormats\<close>: a write beyond its \<open>g_maxFramebufferAttachments\<close> cells and a read
  of a cell never written. An error comes with the state at the throw.
\<close>

datatype gl_error =
    DepthAttachmentFailed
  | TooManyColorAttachments nat
  | ColorAttachmentWithoutTexture
  | FramebufferIncomplete string
  | MipResolutionInvalid
  | InternalFormatsOverrun nat
  | InternalFormatsUninitialized nat

type_synonym 'a gl_result = "(gl_error \<times> GLRenderTarget) + 'a"

definition emit :: "gl_call \<Rightarrow> GLRenderTarget \<Rightarrow> GLRenderTarget" where
  "emit c s = s\<lparr> gl_calls := gl_calls s @ [c] \<rparr>"

subsection \<open>Internals\<close>

definition ErrDepthAttachmentFailed :: "GLRenderTarget \<Rightarrow> 'a gl_result" where
  "ErrDepthAttachmentFailed s = Inl (DepthAttachmentFailed, s)"

definition ErrTooManyColorAttachments :: "nat \<Rightarrow> GLRenderTarget \<Rightarrow> 'a gl_result" where
  "ErrTooManyColorAttachments numColorAttchments s = Inl (TooManyColorAttachments numColorAttchments, s)"

definition ValidateFramebufferStatus :: "gl_env \<Rightarrow> string \<Rightarrow> GLRenderTarget \<Rightarrow> GLRenderTarget gl_result" where
  "ValidateFramebufferStatus env info s =
     (let s1 = emit glCheckFramebufferStatus s
      in if env_framebuffer_complete env (gl_calls s) then Inr s1
         else Inl (FramebufferIncomplete info, s1))"

fun CountColorAttachments_loop :: "AttachmentDescriptor list \<Rightarrow> nat \<Rightarrow> nat" where
  "CountColorAttachments_loop [] numColorAttachments = numColorAttachments"
| "CountColorAttachments_loop (attachmentDesc # rest) numColorAttachments =
     CountColorAttachments_loop rest
       (if att_type attachmentDesc = Color then numColorAttachments + 1 else numColorAttachments)"

definition CountColorAttachments :: "AttachmentDescriptor list \<Rightarrow> GLRenderTarget \<Rightarrow> nat gl_result" where
  "CountColorAttachments attachmentDescs s =
     (let numColorAttachments = CountColorAttachments_loop attachmentDescs 0
      in if numColorAttachments > g_maxFramebufferAttachments
         then ErrTooManyColorAttachments g_maxFramebufferAttachments s
         else Inr numColorAttachments)"

subsection \<open>Queries\<close>

definition GetNumColorAttachments :: "GLRenderTarget \<Rightarrow> u32" where
  "GetNumColorAttachments s = word_of_nat (length (gl_colorAttachments s))"

definition HasDepthAttachment :: "GLRenderTarget \<Rightarrow> bool" where
  "HasDepthAttachment s = (gl_blitMask s AND GL_DEPTH_BUFFER_BIT \<noteq> 0)"

definition HasStencilAttachment :: "GLRenderTarget \<Rightarrow> bool" where
  "HasStencilAttachment s = (gl_blitMask s AND GL_STENCIL_BUFFER_BIT \<noteq> 0)"

definition HasMultiSampling :: "GLRenderTarget \<Rightarrow> bool" where
  "HasMultiSampling s = (gl_multiSamples s > 1)"

definition HasDepthStencilAttachment :: "GLRenderTarget \<Rightarrow> bool" where
  "HasDepthStencilAttachment s =
     (gl_blitMask s AND (GL_DEPTH_BUFFER_BIT OR GL_STENCIL_BUFFER_BIT) \<noteq> 0)"

text \<open>\<open>GetFramebuffer().GetID()\<close>: the multi-sample framebuffer if there is one, else the primary.\<close>

definition GetFramebuffer_ID :: "GLRenderTarget \<Rightarrow> GLuint" where
  "GetFramebuffer_ID s = (if gl_framebufferMS s \<noteq> 0 then gl_framebufferMS s else gl_framebuffer s)"

subsection \<open>Blit\<close>

definition BlitFramebuffer :: "GLRenderTarget \<Rightarrow> GLRenderTarget" where
  "BlitFramebuffer s =
     emit (Framebuffer_Blit (sint (fst (gl_resolution s))) (sint (snd (gl_resolution s))) (gl_blitMask s)) s"

fun BlitOntoFramebuffer_loop :: "GLenum list \<Rightarrow> GLRenderTarget \<Rightarrow> GLRenderTarget" where
  "BlitOntoFramebuffer_loop [] s = s"
| "BlitOntoFramebuffer_loop (attachment # rest) s =
     BlitOntoFramebuffer_loop rest
       (BlitFramebuffer (emit (glDrawBuffer attachment) (emit (glReadBuffer attachment) s)))"

definition BlitOntoFramebuffer :: "GLRenderTarget \<Rightarrow> GLRenderTarget" where
  "BlitOntoFramebuffer s =
     (if gl_framebufferMS s \<noteq> 0 \<and> gl_colorAttachments s \<noteq> [] then
        (let s1 = emit (Framebuffer_Bind (gl_framebuffer s) DRAW_FRAMEBUFFER) s;
             s2 = emit (Framebuffer_Bind (gl_framebufferMS s) READ_FRAMEBUFFER) s1;
             s3 = BlitOntoFramebuffer_loop (gl_colorAttachments s2) s2;
             s4 = emit (Framebuffer_Unbind (gl_framebufferMS s) READ_FRAMEBUFFER) s3
         in emit (Framebuffer_Unbind (gl_framebuffer s) DRAW_FRAMEBUFFER) s4)
      else s)"

definition BlitOntoScreen :: "nat \<Rightarrow> GLRenderTarget \<Rightarrow> GLRenderTarget" where
  "BlitOntoScreen colorAttachmentIndex s =
     (if colorAttachmentIndex < length (gl_colorAttachments s) then
        (let s1 = emit (StateManager_BindFramebuffer DRAW_FRAMEBUFFER 0) s;
             s2 = emit (StateManager_BindFramebuffer READ_FRAMEBUFFER (GetFramebuffer_ID s1)) s1;
             s3 = emit (glReadBuffer (gl_colorAttachments s2 ! colorAttachmentIndex)) s2;
             s4 = emit (glDrawBuffer GL_BACK) s3;
             s5 = BlitFramebuffer s4
         in emit (StateManager_BindFramebuffer READ_FRAMEBUFFER 0) s5)
      else s)"

subsection \<open>Attaching renderbuffers\<close>

definition GenFramebuffer_primary :: "GLRenderTarget \<Rightarrow> GLRenderTarget" where
  "GenFramebuffer_primary s =
     emit (GenFramebuffer (Suc (gl_names s)))
       (s\<lparr> gl_framebuffer := Suc (gl_names s), gl_names := Suc (gl_names s) \<rparr>)"

definition GenFramebuffer_MS :: "GLRenderTarget \<Rightarrow> GLRenderTarget" where
  "GenFramebuffer_MS s =
     emit (GenFramebuffer (Suc (gl_names s)))
       (s\<lparr> gl_framebufferMS := Suc (gl_names s), gl_names := Suc (gl_names s) \<rparr>)"

definition GenRenderbuffer_member :: "GLRenderTarget \<Rightarrow> GLRenderTarget" where
  "GenRenderbuffer_member s =
     emit (GenRenderbuffer (Suc (gl_names s)))
       (s\<lparr> gl_renderbuffer := Suc (gl_names s), gl_names := Suc (gl_names s) \<rparr>)"

definition InitRenderbufferStorage :: "GLuint \<Rightarrow> GLenum \<Rightarrow> GLRenderTarget \<Rightarrow> GLRenderTarget" where
  "InitRenderbufferStorage renderbuffer internalFormat s =
     emit (Renderbuffer_Storage renderbuffer internalFormat
             (sint (fst (gl_resolution s))) (sint (snd (gl_resolution s))) (gl_multiSamples s)) s"

definition CreateAndAttachRenderbuffer :: "GLenum \<Rightarrow> GLenum \<Rightarrow> GLRenderTarget \<Rightarrow> GLRenderTarget gl_result" where
  "CreateAndAttachRenderbuffer internalFormat attachment s =
     (if gl_renderbuffer s = 0 then
        (let s1 = GenRenderbuffer_member s;
             s2 = InitRenderbufferStorage (gl_renderbuffer s1) internalFormat s1
         in Inr (emit (Framebuffer_AttachRenderbuffer attachment (gl_renderbuffer s2)) s2))
      else ErrDepthAttachmentFailed s)"

definition AttachDepthBuffer :: "GLRenderTarget \<Rightarrow> GLRenderTarget gl_result" where
  "AttachDepthBuffer s =
     (case CreateAndAttachRenderbuffer GL_DEPTH_COMPONENT GL_DEPTH_ATTACHMENT s of
        Inl e \<Rightarrow> Inl e
      | Inr s1 \<Rightarrow> Inr (s1\<lparr> gl_blitMask := gl_blitMask s1 OR GL_DEPTH_BUFFER_BIT \<rparr>))"

definition AttachStencilBuffer :: "GLRenderTarget \<Rightarrow> GLRenderTarget gl_result" where
  "AttachStencilBuffer s =
     (case CreateAndAttachRenderbuffer GL_STENCIL_INDEX GL_STENCIL_ATTACHMENT s of
        Inl e \<Rightarrow> Inl e
      | Inr s1 \<Rightarrow> Inr (s1\<lparr> gl_blitMask := gl_blitMask s1 OR GL_STENCIL_BUFFER_BIT \<rparr>))"

definition AttachDepthStencilBuffer :: "GLRenderTarget \<Rightarrow> GLRenderTarget gl_result" where
  "AttachDepthStencilBuffer s =
     (case CreateAndAttachRenderbuffer GL_DEPTH_STENCIL GL_DEPTH_STENCIL_ATTACHMENT s of
        Inl e \<Rightarrow> Inl e
      | Inr s1 \<Rightarrow> Inr (s1\<lparr> gl_blitMask := gl_blitMask s1 OR (GL_DEPTH_BUFFER_BIT OR GL_STENCIL_BUFFER_BIT) \<rparr>))"

fun AttachAllDepthStencilBuffers :: "AttachmentDescriptor list \<Rightarrow> GLRenderTarget \<Rightarrow> GLRenderTarget gl_result" where
  "AttachAllDepthStencilBuffers [] s = Inr s"
| "AttachAllDepthStencilBuffers (attachmentDesc # rest) s =
     (if att_texture attachmentDesc = None then
        (case (case att_type attachmentDesc of
                 Color \<Rightarrow> Inl (ColorAttachmentWithoutTexture, s)
               | Depth \<Rightarrow> AttachDepthBuffer s
               | DepthStencil \<Rightarrow> AttachDepthStencilBuffer s
               | Stencil \<Rightarrow> AttachStencilBuffer s) of
           Inl e \<Rightarrow> Inl e
         | Inr s1 \<Rightarrow> AttachAllDepthStencilBuffers rest s1)
      else AttachAllDepthStencilBuffers rest s)"

subsection \<open>Attaching textures\<close>

definition MakeFramebufferAttachment :: "GLenum \<Rightarrow> GLRenderTarget \<Rightarrow> (GLenum \<times> GLRenderTarget) gl_result" where
  "MakeFramebufferAttachment internalFormat s =
     (if internalFormat = GL_DEPTH_COMPONENT then
        (if \<not> HasDepthStencilAttachment s
         then Inr (GL_DEPTH_ATTACHMENT, s\<lparr> gl_blitMask := gl_blitMask s OR GL_DEPTH_BUFFER_BIT \<rparr>)
         else ErrDepthAttachmentFailed s)
      else if internalFormat = GL_DEPTH_STENCIL then
        (if \<not> HasDepthStencilAttachment s
         then Inr (GL_DEPTH_STENCIL_ATTACHMENT,
                   s\<lparr> gl_blitMask := gl_blitMask s OR (GL_DEPTH_BUFFER_BIT OR GL_STENCIL_BUFFER_BIT) \<rparr>)
         else ErrDepthAttachmentFailed s)
      else
        (let s1 = s\<lparr> gl_blitMask := gl_blitMask s OR GL_COLOR_BUFFER_BIT \<rparr>;
             attachment = GL_COLOR_ATTACHMENT0 + word_of_nat (length (gl_colorAttachments s1))
         in Inr (attachment, s1\<lparr> gl_colorAttachments := gl_colorAttachments s1 @ [attachment] \<rparr>)))"

definition GetTexInternalFormat :: "Texture \<Rightarrow> GLRenderTarget \<Rightarrow> GLenum \<times> GLRenderTarget" where
  "GetTexInternalFormat textureGL s =
     (tex_InternalFormat textureGL,
      emit (glGetTexLevelParameteriv (tex_ID textureGL)) (emit (StateManager_BindTexture (tex_ID textureGL)) s))"

text \<open>
  \<open>AttachTexture\<close>. The third parameter of the source is a reference to the cell
  \<open>internalFormats[colorAttachmentIndex]\<close> of the caller's stack array; here the array and
  the index are passed, and the assignment \<open>internalFormat = ...\<close> is the array update.
\<close>

definition AttachTexture ::
  "gl_env \<Rightarrow> Texture \<Rightarrow> AttachmentDescriptor \<Rightarrow> nat \<Rightarrow> GLRenderTarget \<times> GLenum option list
     \<Rightarrow> (GLRenderTarget \<times> GLenum option list) gl_result"
where
  "AttachTexture env texture attachmentDesc index sf =
     (case sf of (s, internalFormats) \<Rightarrow>
        (let textureID = tex_ID texture;
             mipLevel = att_mipLevel attachmentDesc
         in if \<not> env_mip_resolution_valid env texture mipLevel then Inl (MipResolutionInvalid, s)
            else
              (case GetTexInternalFormat texture s of (internalFormat, s1) \<Rightarrow>
                 (if \<not> index < length internalFormats then Inl (InternalFormatsOverrun index, s1)
                  else
                    (case MakeFramebufferAttachment internalFormat s1 of
                       Inl e \<Rightarrow> Inl e
                     | Inr (attachment, s2) \<Rightarrow>
                         Inr (emit
                                (case tex_Type texture of
                                   Texture1D \<Rightarrow>
                                     Framebuffer_AttachTexture1D attachment GL_TEXTURE_1D textureID (sint mipLevel)
                                 | Texture2D \<Rightarrow>
                                     Framebuffer_AttachTexture2D attachment GL_TEXTURE_2D textureID (sint mipLevel)
                                 | Texture3D \<Rightarrow>
                                     Framebuffer_AttachTexture3D attachment GL_TEXTURE_3D textureID (sint mipLevel)
                                       (sint (att_arrayLayer attachmentDesc))
                                 | TextureCube \<Rightarrow>
                                     Framebuffer_AttachTexture2D attachment
                                       (env_ToTextureCubeMap env (att_arrayLayer attachmentDesc)) textureID (sint mipLevel)
                                 | Texture1DArray \<Rightarrow>
                                     Framebuffer_AttachTextureLayer attachment textureID (sint mipLevel)
                                       (sint (att_arrayLayer attachmentDesc))
                                 | Texture2DArray \<Rightarrow>
                                     Framebuffer_AttachTextureLayer attachment textureID (sint mipLevel)
                                       (sint (att_arrayLayer attachmentDesc))
                                 | TextureCubeArray \<Rightarrow>
                                     Framebuffer_AttachTextureLayer attachment textureID (sint mipLevel)
                                       (sint (att_arrayLayer attachmentDesc))
                                 | Texture2DMS \<Rightarrow>
                                     Framebuffer_AttachTexture2D attachment GL_TEXTURE_2D_MULTISAMPLE textureID 0
                                 | Texture2DMSArray \<Rightarrow>
                                     Framebuffer_AttachTextureLayer attachment textureID 0
                                       (sint (att_arrayLayer attachmentDesc)))
                                s2,
                              internalFormats[index := Some internalFormat]))))))"

text \<open>
  The loop of \<open>AttachAllTextures\<close>: \<open>colorAttachmentIndex\<close> is advanced for every attachment
  that has a texture.
\<close>

fun AttachAllTextures_loop ::
  "gl_env \<Rightarrow> AttachmentDescriptor list \<Rightarrow> nat \<Rightarrow> GLRenderTarget \<times> GLenum option list
     \<Rightarrow> (GLRenderTarget \<times> GLenum option list) gl_result"
where
  "AttachAllTextures_loop env [] colorAttachmentIndex sf = Inr sf"
| "AttachAllTextures_loop env (attachmentDesc # rest) colorAttachmentIndex sf =
     (case att_texture attachmentDesc of
        Some texture \<Rightarrow>
          (case AttachTexture env texture attachmentDesc colorAttachmentIndex sf of
             Inl e \<Rightarrow> Inl e
           | Inr sf1 \<Rightarrow> AttachAllTextures_loop env rest (colorAttachmentIndex + 1) sf1)
      | None \<Rightarrow> AttachAllTextures_loop env rest colorAttachmentIndex sf)"

definition AttachAllTextures ::
  "gl_env \<Rightarrow> AttachmentDescriptor list \<Rightarrow> GLRenderTarget \<times> GLenum option list
     \<Rightarrow> (GLRenderTarget \<times> GLenum option list) gl_result"
where
  "AttachAllTextures env attachmentDescs sf = AttachAllTextures_loop env attachmentDescs 0 sf"

subsection \<open>Draw buffers and multi-sample renderbuffers\<close>

definition SetDrawBuffers :: "GLRenderTarget \<Rightarrow> GLRenderTarget" where
  "SetDrawBuffers s =
     (case gl_colorAttachments s of
        [] \<Rightarrow> emit (glDrawBuffer GL_NONE) s
      | [front] \<Rightarrow> emit (glDrawBuffer front) s
      | _ \<Rightarrow> emit (glDrawBuffers (sint (word_of_nat (length (gl_colorAttachments s)) :: u32))
                    (gl_colorAttachments s)) s)"

definition CreateRenderbufferMS :: "GLenum \<Rightarrow> GLenum \<Rightarrow> GLRenderTarget \<Rightarrow> GLRenderTarget" where
  "CreateRenderbufferMS attachment internalFormat s =
     (let renderbuffer = Suc (gl_names s);
          s1 = emit (GenRenderbuffer renderbuffer) (s\<lparr> gl_names := renderbuffer \<rparr>);
          s2 = InitRenderbufferStorage renderbuffer internalFormat s1;
          s3 = emit (Framebuffer_AttachRenderbuffer attachment renderbuffer) s2
      in s3\<lparr> gl_renderbuffersMS := gl_renderbuffersMS s3 @ [renderbuffer] \<rparr>)"

text \<open>
  The loop of \<open>CreateRenderbuffersMS\<close>, \<open>i\<close> running over the positions of
  \<open>colorAttachments_\<close>, reading \<open>internalFormats[i]\<close>.
\<close>

fun CreateRenderbuffersMS_loop :: "GLenum option list \<Rightarrow> nat list \<Rightarrow> GLRenderTarget \<Rightarrow> GLRenderTarget gl_result" where
  "CreateRenderbuffersMS_loop internalFormats [] s = Inr s"
| "CreateRenderbuffersMS_loop internalFormats (i # rest) s =
     (case (if i < length internalFormats then internalFormats ! i else None) of
        None \<Rightarrow> Inl (InternalFormatsUninitialized i, s)
      | Some internalFormat \<Rightarrow>
          CreateRenderbuffersMS_loop internalFormats rest
            (CreateRenderbufferMS (gl_colorAttachments s ! i) internalFormat s))"

definition CreateRenderbuffersMS :: "gl_env \<Rightarrow> GLenum option list \<Rightarrow> GLRenderTarget \<Rightarrow> GLRenderTarget gl_result" where
  "CreateRenderbuffersMS env internalFormats s =
     (case CreateRenderbuffersMS_loop internalFormats [0..<length (gl_colorAttachments s)] s of
        Inl e \<Rightarrow> Inl e
      | Inr s1 \<Rightarrow>
          ValidateFramebufferStatus env
            ''color attachments to multi-sample framebuffer object (FBO) failed'' (SetDrawBuffers s1))"

subsection \<open>Construction\<close>

definition CreateFramebufferWithAttachments :: "gl_env \<Rightarrow> RenderTargetDescriptor \<Rightarrow> GLRenderTarget \<Rightarrow> GLRenderTarget gl_result" where
  "CreateFramebufferWithAttachments env desc s =
     (let s1 = (if HasMultiSampling s \<and> \<not> desc_customMultiSampling desc then GenFramebuffer_MS s else s);
          internalFormats = replicate g_maxFramebufferAttachments None
      in case CountColorAttachments (desc_attachments desc) s1 of
           Inl e \<Rightarrow> Inl e
         | Inr numColorAttachments \<Rightarrow>
             (let s2 = emit (StateManager_BindFramebuffer FRAMEBUFFER (gl_framebuffer s1)) s1
              in case (if gl_framebufferMS s2 \<noteq> 0 then
                         AttachAllTextures env (desc_attachments desc) (s2, internalFormats)
                       else
                         (case AttachAllDepthStencilBuffers (desc_attachments desc) s2 of
                            Inl e \<Rightarrow> Inl e
                          | Inr s3 \<Rightarrow>
                              (case AttachAllTextures env (desc_attachments desc) (s3, internalFormats) of
                                 Inl e \<Rightarrow> Inl e
                               | Inr (s4, fmts) \<Rightarrow> Inr (SetDrawBuffers s4, fmts)))) of
                   Inl e \<Rightarrow> Inl e
                 | Inr (s5, fmts) \<Rightarrow>
                     (case ValidateFramebufferStatus env
                             ''color attachment to framebuffer object (FBO) failed'' s5 of
                        Inl e \<Rightarrow> Inl e
                      | Inr s6 \<Rightarrow>
                          (if gl_framebufferMS s6 \<noteq> 0 then
                             (let s7 = emit (StateManager_BindFramebuffer FRAMEBUFFER (gl_framebufferMS s6)) s6
                              in case AttachAllDepthStencilBuffers (desc_attachments desc) s7 of
                                   Inl e \<Rightarrow> Inl e
                                 | Inr s8 \<Rightarrow> CreateRenderbuffersMS env fmts s8)
                           else Inr s6))))"

definition CreateFramebufferWithNoAttachments :: "gl_env \<Rightarrow> RenderTargetDescriptor \<Rightarrow> GLRenderTarget \<Rightarrow> GLRenderTarget gl_result" where
  "CreateFramebufferWithNoAttachments env desc s =
     (let s1 =
        (if env_no_attachments_ext env then
           emit (Framebuffer_Parameters (gl_framebuffer s)
                   (sint (fst (desc_resolution desc))) (sint (snd (desc_resolution desc)))
                   1 (gl_multiSamples s) 0) s
         else
           (let t1 = emit (StateManager_BindFramebuffer FRAMEBUFFER (gl_framebuffer s)) s;
                t2 = GenRenderbuffer_member t1;
                t3 = emit (Renderbuffer_Storage (gl_renderbuffer t2) GL_RED
                             (sint (fst (desc_resolution desc))) (sint (snd (desc_resolution desc)))
                             (gl_multiSamples t2)) t2
            in emit (Framebuffer_AttachRenderbuffer GL_COLOR_ATTACHMENT0 (gl_renderbuffer t3)) t3))
      in ValidateFramebufferStatus env
           ''initializing default parameters for framebuffer object (FBO) failed'' s1)"

text \<open>
  The constructor, in a GL context that has handed out \<open>names\<close> object names and received
  \<open>calls\<close>. The members start as the class declares them (no objects, no colour attachments,
  an empty blit mask).
\<close>

definition GLRenderTarget_ctor :: "gl_env \<Rightarrow> nat \<Rightarrow> gl_call list \<Rightarrow> RenderTargetDescriptor \<Rightarrow> GLRenderTarget gl_result" where
  "GLRenderTarget_ctor env names calls desc =
     (let s0 = \<lparr> gl_resolution = desc_resolution desc,
                 gl_multiSamples = sint (desc_sampleCount desc),
                 gl_framebuffer = 0, gl_framebufferMS = 0, gl_renderbuffer = 0,
                 gl_renderbuffersMS = [], gl_colorAttachments = [], gl_blitMask = 0,
                 gl_names = names, gl_calls = calls \<rparr>;
          s1 = GenFramebuffer_primary s0
      in if desc_attachments desc = [] then CreateFramebufferWithNoAttachments env desc s1
         else CreateFramebufferWithAttachments env desc s1)"

text \<open>The error a construction ended with, if any.\<close>

definition error_of :: "'a gl_result \<Rightarrow> gl_error option" where
  "error_of r = (case r of Inl (e, s) \<Rightarrow> Some e | Inr _ \<Rightarrow> None)"

text \<open>The blit-mask bits a renderbuffer attachment of a kind adds.\<close>

definition buffer_bits :: "AttachmentType \<Rightarrow> GLbitfield" where
  "buffer_bits kind =
     (case kind of
        Color \<Rightarrow> 0
      | Depth \<Rightarrow> GL_DEPTH_BUFFER_BIT
      | DepthStencil \<Rightarrow> GL_DEPTH_BUFFER_BIT OR GL_STENCIL_BUFFER_BIT
      | Stencil \<Rightarrow> GL_STENCIL_BUFFER_BIT)"

section \<open>Example inputs\<close>

text \<open>Concrete recorders, devices and render targets on which the theorems below are exercised.\<close>

definition members0 :: "nat VKCommandBuffer" where
  "members0 = \<lparr> vk_commandPool = 0, vk_queuePresentFamily = 0, vk_commandBufferList = [],
     vk_commandBufferActiveList = [], vk_commandBufferActiveIt = 0, vk_commandBuffer = 0,
     vk_recordingFenceList = [], vk_recordingFence = 0, vk_renderPass = 0, vk_framebuffer = 0,
     vk_framebufferExtent = (0, 0), vk_scissorEnabled = False, vk_scissorRectInvalidated = False,
     vk_numColorAttachments = 0, vk_hasDSVAttachment = False,
     vk_clearColor = (0, 0, 0, 0), vk_clearDepthStencil = (1, 0) \<rparr>"

definition device0 :: VkDevice where
  "device0 = \<lparr> dev_handles = 0, dev_fences = Map.empty, dev_calls = [] \<rparr>"

definition results_ok :: ctor_results where
  "results_ok = \<lparr> res_vkCreateCommandPool = VK_SUCCESS, res_vkAllocateCommandBuffers = VK_SUCCESS,
     res_vkCreateFence = (\<lambda>k. VK_SUCCESS) \<rparr>"

definition slot0_recording :: "nat VKCommandBuffer" where
  "slot0_recording = members0\<lparr> vk_commandBufferList := [2], vk_commandBufferActiveList := [True],
     vk_commandBuffer := 2, vk_recordingFenceList := [3], vk_recordingFence := 3 \<rparr>"

definition slot0_idle :: "nat VKCommandBuffer" where
  "slot0_idle = members0\<lparr> vk_commandBufferList := [2], vk_commandBufferActiveList := [False],
     vk_commandBuffer := 2, vk_recordingFenceList := [3], vk_recordingFence := 3 \<rparr>"

definition target_3c_d :: VKRenderTarget where
  "target_3c_d = \<lparr> GetVkRenderPass = 7, GetVkFramebuffer = 8, GetVkExtent = (640, 480),
     VK_GetNumColorAttachments = 3, VK_HasDepthAttachment = True, VK_HasStencilAttachment = False \<rparr>"

definition env_ok :: gl_env where
  "env_ok = \<lparr> env_no_attachments_ext = True, env_framebuffer_complete = (\<lambda>calls. True),
     env_mip_resolution_valid = (\<lambda>texture mipLevel. True),
     env_ToTextureCubeMap = (\<lambda>arrayLayer. 34069 + arrayLayer) \<rparr>"

definition color_texture :: "nat \<Rightarrow> Texture" where
  "color_texture i = \<lparr> tex_ID = i, tex_Type = Texture2D, tex_InternalFormat = GL_RGBA \<rparr>"

definition depth_texture :: "nat \<Rightarrow> Texture" where
  "depth_texture i = \<lparr> tex_ID = i, tex_Type = Texture2D, tex_InternalFormat = GL_DEPTH_COMPONENT \<rparr>"

definition attachment :: "AttachmentType \<Rightarrow> Texture option \<Rightarrow> AttachmentDescriptor" where
  "attachment kind tex = \<lparr> att_type = kind, att_texture = tex, att_mipLevel = 0, att_arrayLayer = 0 \<rparr>"

definition descriptor :: "AttachmentDescriptor list \<Rightarrow> u32 \<Rightarrow> RenderTargetDescriptor" where
  "descriptor atts samples = \<lparr> desc_attachments = atts, desc_resolution = (640, 480),
     desc_sampleCount = samples, desc_customMultiSampling = False \<rparr>"

definition color_attachments :: "nat \<Rightarrow> AttachmentDescriptor list" where
  "color_attachments n = map (\<lambda>i. attachment Color (Some (color_texture (100 + i)))) [0..<n]"

definition direct_target :: GLRenderTarget where
  "direct_target = \<lparr> gl_resolution = (640, 480), gl_multiSamples = 1, gl_framebuffer = 1,
     gl_framebufferMS = 0, gl_renderbuffer = 0, gl_renderbuffersMS = [],
     gl_colorAttachments = [GL_COLOR_ATTACHMENT0], gl_blitMask = GL_COLOR_BUFFER_BIT, gl_names = 1,
     gl_calls = [GenFramebuffer 1, StateManager_BindFramebuffer FRAMEBUFFER 1,
                 StateManager_BindTexture 100, glGetTexLevelParameteriv 100,
                 Framebuffer_AttachTexture2D GL_COLOR_ATTACHMENT0 GL_TEXTURE_2D 100 0,
                 glDrawBuffer GL_COLOR_ATTACHMENT0, glCheckFramebufferStatus] \<rparr>"

definition two_depth_one_color_buffer :: RenderTargetDescriptor where
  "two_depth_one_color_buffer =
     descriptor [attachment Depth None, attachment Color None, attachment DepthStencil None] 1"

definition depth_and_depth_stencil :: "u32 \<Rightarrow> RenderTargetDescriptor" where
  "depth_and_depth_stencil samples =
     descriptor (color_attachments 2 @ [attachment Depth None, attachment DepthStencil None]) samples"

definition depth_texture_and_buffer :: "u32 \<Rightarrow> RenderTargetDescriptor" where
  "depth_texture_and_buffer samples =
     descriptor [attachment Depth (Some (depth_texture 99)), attachment DepthStencil None] samples"

definition two_depth_textures :: "u32 \<Rightarrow> RenderTargetDescriptor" where
  "two_depth_textures samples =
     descriptor [attachment Depth (Some (depth_texture 98)), attachment Depth (Some (depth_texture 99))]
       samples"

definition both_depth_attached :: GLRenderTarget where
  "both_depth_attached = \<lparr> gl_resolution = (640, 480), gl_multiSamples = 4, gl_framebuffer = 1,
     gl_framebufferMS = 2, gl_renderbuffer = 3, gl_renderbuffersMS = [],
     gl_colorAttachments = [], gl_blitMask = GL_DEPTH_BUFFER_BIT OR GL_STENCIL_BUFFER_BIT,
     gl_names = 3,
     gl_calls = [GenFramebuffer 1, GenFramebuffer 2, StateManager_BindFramebuffer FRAMEBUFFER 1,
                 StateManager_BindTexture 99, glGetTexLevelParameteriv 99,
                 Framebuffer_AttachTexture2D GL_DEPTH_ATTACHMENT GL_TEXTURE_2D 99 0,
                 glCheckFramebufferStatus, StateManager_BindFramebuffer FRAMEBUFFER 2,
                 GenRenderbuffer 3, Renderbuffer_Storage 3 GL_DEPTH_STENCIL 640 480 4,
                 Framebuffer_AttachRenderbuffer GL_DEPTH_STENCIL_ATTACHMENT 3,
                 glDrawBuffer GL_NONE, glCheckFramebufferStatus] \<rparr>"

section \<open>Properties of the command recorder\<close>

subsection \<open>Evaluation helpers\<close>

lemma replicate_16: "replicate 16 x = [x,x,x,x,x,x,x,x,x,x,x,x,x,x,x,x]"
  by (simp add: numeral_eq_Suc)

lemma replicate_33: "replicate 33 x = [x,x,x,x,x,x,x,x,x,x,x,x,x,x,x,x,x,x,x,x,x,x,x,x,x,x,x,x,x,x,x,x,x]"
  by (simp add: numeral_eq_Suc)

lemma list_update_numeral: "(x # xs)[numeral k := y] = x # xs[pred_numeral k := y]"
  by (simp add: numeral_eq_Suc)

subsection \<open>Viewport batches\<close>

text \<open>
  Claim C1 says that \<open>SetViewports\<close> with more than 16 viewports (in particular 20) issues
  one native call per chunk of at most 16, covering all entries: for 20 viewports two calls,
  for the positions 0 to 15 and 16 to 19. The code does not: after the first batch the loop
  test \<open>i < numViewports\<close> compares the position 16 with the 4 viewports that remain and
  stops. With 20 viewports it issues the single call for the first 16 positions and never
  converts or submits the last four.
\<close>

theorem SetViewports_20_issues_one_batch:
  "SetViewports Convert s 20
     [v0, v1, v2, v3, v4, v5, v6, v7, v8, v9, v10, v11, v12, v13, v14, v15, v16, v17, v18, v19]
   = Some [vkCmdSetViewport (vk_commandBuffer s) 0 16
             (map (Some \<circ> Convert) [v0, v1, v2, v3, v4, v5, v6, v7, v8, v9, v10, v11, v12, v13, v14, v15])]"
  by (simp add: SetViewports_def replicate_16 g_maxNumViewportsPerBatch_def list_update_numeral)

subsection \<open>Clear\<close>

lemma Clear_three_colors_depth:
  assumes "vk_numColorAttachments s = 3" and "vk_hasDSVAttachment s"
  shows "Clear (ClearFlags_Color OR ClearFlags_Depth) s =
    [vkCmdClearAttachments (vk_commandBuffer s) 4
       [Some \<lparr> aspectMask = VK_IMAGE_ASPECT_COLOR_BIT, colorAttachment = 0,
                clearValue = (case vk_clearColor s of (r, g, b, a) \<Rightarrow> ClearColor r g b a) \<rparr>,
        Some \<lparr> aspectMask = VK_IMAGE_ASPECT_COLOR_BIT, colorAttachment = 1,
                clearValue = (case vk_clearColor s of (r, g, b, a) \<Rightarrow> ClearColor r g b a) \<rparr>,
        Some \<lparr> aspectMask = VK_IMAGE_ASPECT_COLOR_BIT, colorAttachment = 2,
                clearValue = (case vk_clearColor s of (r, g, b, a) \<Rightarrow> ClearColor r g b a) \<rparr>,
        Some \<lparr> aspectMask = VK_IMAGE_ASPECT_DEPTH_BIT, colorAttachment = 0,
                clearValue = (case vk_clearDepthStencil s of (d, st) \<Rightarrow> ClearDepthStencil d st) \<rparr>]
       [\<lparr> rect_offset = (0, 0), rect_extent = vk_framebufferExtent s, baseArrayLayer = 0, layerCount = 1 \<rparr>]]"
  using assms
  by (simp add: Clear_def ClearFramebufferAttachments_def GetDepthStencilAspectMask_def
      ClearFlags_Color_def ClearFlags_Depth_def ClearFlags_Stencil_def ClearFlags_DepthStencil_def
      g_maxNumColorAttachments_def g_maxNumAttachments_def replicate_33 list_update_numeral
      VK_IMAGE_ASPECT_DEPTH_BIT_def)

lemma store_active_fields:
  assumes "store_active b s = Inr s1"
  shows "vk_commandBuffer s1 = vk_commandBuffer s" "vk_renderPass s1 = vk_renderPass s"
    "vk_clearColor s1 = vk_clearColor s" "vk_clearDepthStencil s1 = vk_clearDepthStencil s"
    "vk_commandBufferActiveIt s1 = vk_commandBufferActiveIt s"
    "vk_commandBufferActiveList s1 = (vk_commandBufferActiveList s)[vk_commandBufferActiveIt s := b]"
    "vk_recordingFence s1 = vk_recordingFence s"
  using assms by (auto simp: store_active_def split: if_splits)

lemma BeginCommandBuffer_fields:
  assumes "BeginCommandBuffer r (d, s) = Inr (d1, s1)"
  shows "vk_commandBuffer s1 = vk_commandBuffer s" "vk_renderPass s1 = vk_renderPass s"
    "vk_clearColor s1 = vk_clearColor s" "vk_clearDepthStencil s1 = vk_clearDepthStencil s"
  using assms
  by (auto simp: BeginCommandBuffer_def Let_def store_active_fields split: if_splits sum.splits)

lemma SetRenderPass_fields:
  assumes "SetRenderPass rp fb ext (d, s) = (d1, s1)"
  shows "vk_commandBuffer s1 = vk_commandBuffer s"
    "vk_clearColor s1 = vk_clearColor s" "vk_clearDepthStencil s1 = vk_clearDepthStencil s"
    "rp \<noteq> VK_NULL_HANDLE \<Longrightarrow> vk_framebufferExtent s1 = ext"
  using assms
  by (auto simp: SetRenderPass_def BeginRenderPass_def EndRenderPass_def Let_def split: if_splits prod.splits)

lemma SetRenderTarget_fields:
  assumes "SetRenderTarget r rt (d, s) = Inr (d', s')"
  shows "vk_commandBuffer s' = vk_commandBuffer s"
    "vk_clearColor s' = vk_clearColor s" "vk_clearDepthStencil s' = vk_clearDepthStencil s"
    "GetVkRenderPass rt \<noteq> VK_NULL_HANDLE \<Longrightarrow> vk_framebufferExtent s' = GetVkExtent rt"
    "vk_numColorAttachments s' = VK_GetNumColorAttachments rt"
    "vk_hasDSVAttachment s' = (VK_HasDepthAttachment rt \<or> VK_HasStencilAttachment rt)"
proof -
  from assms obtain active d1 s1 d2 s2 where
    a: "IsCommandBufferActive s = Inr active"
    and b: "(if \<not> active then BeginCommandBuffer r (d, s) else Inr (d, s)) = Inr (d1, s1)"
    and c: "SetRenderPass (GetVkRenderPass rt) (GetVkFramebuffer rt) (GetVkExtent rt) (d1, s1) = (d2, s2)"
    and e: "s' = s2\<lparr> vk_numColorAttachments := VK_GetNumColorAttachments rt,
                     vk_hasDSVAttachment := (VK_HasDepthAttachment rt \<or> VK_HasStencilAttachment rt) \<rparr>"
    by (auto simp: SetRenderTarget_def split: sum.splits prod.splits)
  from b have s1: "vk_commandBuffer s1 = vk_commandBuffer s \<and> vk_clearColor s1 = vk_clearColor s
      \<and> vk_clearDepthStencil s1 = vk_clearDepthStencil s"
    by (cases active) (auto simp: BeginCommandBuffer_fields)
  show "vk_commandBuffer s' = vk_commandBuffer s"
    "vk_clearColor s' = vk_clearColor s" "vk_clearDepthStencil s' = vk_clearDepthStencil s"
    "GetVkRenderPass rt \<noteq> VK_NULL_HANDLE \<Longrightarrow> vk_framebufferExtent s' = GetVkExtent rt"
    "vk_numColorAttachments s' = VK_GetNumColorAttachments rt"
    "vk_hasDSVAttachment s' = (VK_HasDepthAttachment rt \<or> VK_HasStencilAttachment rt)"
    using s1 SetRenderPass_fields[OF c] by (simp_all add: e)
qed

text \<open>
  Claim C5: \<open>Clear\<close> with the flags \<open>Color | Depth\<close>, while the active render target has three
  colour attachments and a depth-only attachment, submits one clear-attachments operation with
  exactly four entries: three colour entries with the attachment indices 0, 1 and 2 and the
  cached clear colour, then one depth entry whose aspect mask has the depth bit and not the
  stencil bit; the single clear rectangle is the whole render-pass extent, with one array layer.
  The render target is made active by \<open>SetRenderTarget\<close>.
\<close>

theorem Clear_color_depth_entries:
  assumes "SetRenderTarget beginResult rt (d, s) = Inr (d', s')"
    and "VK_GetNumColorAttachments rt = 3"
    and "VK_HasDepthAttachment rt" and "\<not> VK_HasStencilAttachment rt"
    and "GetVkRenderPass rt \<noteq> VK_NULL_HANDLE"
  shows "Clear (ClearFlags_Color OR ClearFlags_Depth) s' =
    [vkCmdClearAttachments (vk_commandBuffer s) 4
       [Some \<lparr> aspectMask = VK_IMAGE_ASPECT_COLOR_BIT, colorAttachment = 0,
                clearValue = (case vk_clearColor s of (r, g, b, a) \<Rightarrow> ClearColor r g b a) \<rparr>,
        Some \<lparr> aspectMask = VK_IMAGE_ASPECT_COLOR_BIT, colorAttachment = 1,
                clearValue = (case vk_clearColor s of (r, g, b, a) \<Rightarrow> ClearColor r g b a) \<rparr>,
        Some \<lparr> aspectMask = VK_IMAGE_ASPECT_COLOR_BIT, colorAttachment = 2,
                clearValue = (case vk_clearColor s of (r, g, b, a) \<Rightarrow> ClearColor r g b a) \<rparr>,
        Some \<lparr> aspectMask = VK_IMAGE_ASPECT_DEPTH_BIT, colorAttachment = 0,
                clearValue = (case vk_clearDepthStencil s of (dp, st) \<Rightarrow> ClearDepthStencil dp st) \<rparr>]
       [\<lparr> rect_offset = (0, 0), rect_extent = GetVkExtent rt, baseArrayLayer = 0, layerCount = 1 \<rparr>]]
    \<and> VK_IMAGE_ASPECT_DEPTH_BIT AND VK_IMAGE_ASPECT_DEPTH_BIT \<noteq> 0
    \<and> VK_IMAGE_ASPECT_DEPTH_BIT AND VK_IMAGE_ASPECT_STENCIL_BIT = 0"
proof -
  note f = SetRenderTarget_fields[OF assms(1)]
  have n: "vk_numColorAttachments s' = 3" and h: "vk_hasDSVAttachment s'"
    using f(5,6) assms(2,3) by simp_all
  have bits: "VK_IMAGE_ASPECT_DEPTH_BIT AND VK_IMAGE_ASPECT_DEPTH_BIT \<noteq> 0"
    "VK_IMAGE_ASPECT_DEPTH_BIT AND VK_IMAGE_ASPECT_STENCIL_BIT = 0"
    by (simp_all add: VK_IMAGE_ASPECT_DEPTH_BIT_def VK_IMAGE_ASPECT_STENCIL_BIT_def)
  show ?thesis
    using Clear_three_colors_depth[OF n h] f(1,2,3) f(4)[OF assms(5)] bits by simp
qed

theorem Clear_color_depth_entries_witness:
  "SetRenderTarget VK_SUCCESS target_3c_d (device0, slot0_recording)
     = Inr (device0\<lparr> dev_calls := [vkCmdBeginRenderPass 2 7 8 (640, 480)] \<rparr>,
            slot0_recording\<lparr> vk_renderPass := 7, vk_framebuffer := 8, vk_framebufferExtent := (640, 480),
              vk_scissorRectInvalidated := True, vk_numColorAttachments := 3, vk_hasDSVAttachment := True \<rparr>)
   \<and> Clear (ClearFlags_Color OR ClearFlags_Depth)
       (slot0_recording\<lparr> vk_renderPass := 7, vk_framebuffer := 8, vk_framebufferExtent := (640, 480),
              vk_scissorRectInvalidated := True, vk_numColorAttachments := 3, vk_hasDSVAttachment := True \<rparr>) =
    [vkCmdClearAttachments 2 4
       [Some \<lparr> aspectMask = 1, colorAttachment = 0, clearValue = ClearColor 0 0 0 0 \<rparr>,
        Some \<lparr> aspectMask = 1, colorAttachment = 1, clearValue = ClearColor 0 0 0 0 \<rparr>,
        Some \<lparr> aspectMask = 1, colorAttachment = 2, clearValue = ClearColor 0 0 0 0 \<rparr>,
        Some \<lparr> aspectMask = 2, colorAttachment = 0, clearValue = ClearDepthStencil 1 0 \<rparr>]
       [\<lparr> rect_offset = (0, 0), rect_extent = (640, 480), baseArrayLayer = 0, layerCount = 1 \<rparr>]]"
proof -
  have run: "SetRenderTarget VK_SUCCESS target_3c_d (device0, slot0_recording)
     = Inr (device0\<lparr> dev_calls := [vkCmdBeginRenderPass 2 7 8 (640, 480)] \<rparr>,
            slot0_recording\<lparr> vk_renderPass := 7, vk_framebuffer := 8, vk_framebufferExtent := (640, 480),
              vk_scissorRectInvalidated := True, vk_numColorAttachments := 3, vk_hasDSVAttachment := True \<rparr>)"
    by (simp add: SetRenderTarget_def IsCommandBufferActive_def SetRenderPass_def BeginRenderPass_def
        EndRenderPass_def VK_NULL_HANDLE_def target_3c_d_def device0_def slot0_recording_def members0_def)
  have t: "VK_GetNumColorAttachments target_3c_d = 3" "VK_HasDepthAttachment target_3c_d"
    "\<not> VK_HasStencilAttachment target_3c_d" "GetVkRenderPass target_3c_d \<noteq> VK_NULL_HANDLE"
    by (simp_all add: target_3c_d_def VK_NULL_HANDLE_def)
  show ?thesis
    using Clear_color_depth_entries[OF run t] run
    by (simp add: target_3c_d_def slot0_recording_def members0_def VK_IMAGE_ASPECT_COLOR_BIT_def
        VK_IMAGE_ASPECT_DEPTH_BIT_def)
qed

subsection \<open>Recording slots\<close>

lemma CreateCommandBuffers_iterator:
  assumes "CreateCommandBuffers r n (d, s) = Inr (d1, s1)"
  shows "vk_commandBufferActiveIt s1 = length (vk_commandBufferActiveList s1)"
  using assms
  by (auto simp: CreateCommandBuffers_def Let_def split: sum.splits list.splits)

lemma CreateRecordingFences_iterator:
  assumes "CreateRecordingFences cr n (d, s) = Inr (d1, s1)"
  shows "vk_commandBufferActiveIt s1 = vk_commandBufferActiveIt s"
    and "vk_commandBufferActiveList s1 = vk_commandBufferActiveList s"
  using assms
  by (auto simp: CreateRecordingFences_def Let_def split: sum.splits list.splits prod.splits)

lemma ctor_iterator:
  assumes "VKCommandBuffer_ctor res device members bufferCount gf pf = Inr (d, s)"
  shows "vk_commandBufferActiveIt s = length (vk_commandBufferActiveList s)"
proof -
  from assms obtain d1 s1 d2 s2 where
    b: "CreateCommandBuffers (res_vkAllocateCommandBuffers res) bufferCount (d1, s1) = Inr (d2, s2)"
    and c: "CreateRecordingFences (res_vkCreateFence res) bufferCount (d2, s2) = Inr (d, s)"
    by (auto simp: VKCommandBuffer_ctor_def Let_def split: sum.splits)
  show ?thesis
    using CreateCommandBuffers_iterator[OF b] CreateRecordingFences_iterator[OF c] by simp
qed

text \<open>
  Claim C10 says that on a freshly constructed recorder, before \<open>SetPresentIndex\<close> has been
  called, the activity query made by \<open>SetRenderTarget\<close> reads a valid element of the activity
  list. The code does not: \<open>CreateCommandBuffers\<close> leaves \<open>commandBufferActiveIt_\<close> at
  \<open>end()\<close> (while \<open>commandBuffer_\<close> and \<open>recordingFence_\<close> are set to the front elements),
  the fence creation does not move it, and \<open>IsCommandBufferActive\<close> dereferences it. Whenever
  the constructor returns, the query, and with it \<open>SetRenderTarget\<close>, dereferences the
  past-the-end position.
\<close>

theorem fresh_recorder_reads_past_the_end:
  assumes "VKCommandBuffer_ctor res device members bufferCount graphicsFamily presentFamily = Inr (d, s)"
  shows "vk_commandBufferActiveIt s = length (vk_commandBufferActiveList s)
    \<and> IsCommandBufferActive s = Inl PastTheEndDereference
    \<and> SetRenderTarget beginResult renderTarget (d, s) = Inl PastTheEndDereference"
  using ctor_iterator[OF assms]
  by (simp add: IsCommandBufferActive_def SetRenderTarget_def)

lemma upt_0_2: "[0..<2] = [0, 1]"
  by code_simp

lemma replicate_2: "replicate 2 x = [x, x]"
  by (simp add: numeral_2_eq_2)

lemma ctor_two_buffers:
  "VKCommandBuffer_ctor results_ok device0 members0 2 0 0 =
     Inr (\<lparr> dev_handles = 5, dev_fences = [4 \<mapsto> True, 5 \<mapsto> True],
             dev_calls = [vkCreateCommandPool 2 0, vkAllocateCommandBuffers 1 2,
                          vkCreateFence 0, vkQueueSubmit 0 4, vkCreateFence 0, vkQueueSubmit 0 5] \<rparr>,
          members0\<lparr> vk_commandPool := 1, vk_commandBufferList := [2, 3],
            vk_commandBufferActiveList := [False, False], vk_commandBufferActiveIt := 2,
            vk_commandBuffer := 2, vk_recordingFenceList := [4, 5], vk_recordingFence := 4 \<rparr>)"
  apply (simp add: VKCommandBuffer_ctor_def CreateCommandPool_def CreateCommandBuffers_def
      CreateRecordingFences_def VKThrowIfFailed_def resize_def results_ok_def device0_def members0_def
      VK_SUCCESS_def VK_COMMAND_POOL_CREATE_RESET_COMMAND_BUFFER_BIT_def Let_def upt_0_2
      replicate_2)
  apply (simp add: eval_nat_numeral)
  done

theorem fresh_recorder_reads_past_the_end_witness:
  "VKCommandBuffer_ctor results_ok device0 members0 2 0 0 =
     Inr (\<lparr> dev_handles = 5, dev_fences = [4 \<mapsto> True, 5 \<mapsto> True],
             dev_calls = [vkCreateCommandPool 2 0, vkAllocateCommandBuffers 1 2,
                          vkCreateFence 0, vkQueueSubmit 0 4, vkCreateFence 0, vkQueueSubmit 0 5] \<rparr>,
          members0\<lparr> vk_commandPool := 1, vk_commandBufferList := [2, 3],
            vk_commandBufferActiveList := [False, False], vk_commandBufferActiveIt := 2,
            vk_commandBuffer := 2, vk_recordingFenceList := [4, 5], vk_recordingFence := 4 \<rparr>)
   \<and> IsCommandBufferActive
     (members0\<lparr> vk_commandPool := 1, vk_commandBufferList := [2, 3],
        vk_commandBufferActiveList := [False, False], vk_commandBufferActiveIt := 2,
        vk_commandBuffer := 2, vk_recordingFenceList := [4, 5], vk_recordingFence := 4 \<rparr>)
   = Inl PastTheEndDereference"
  using fresh_recorder_reads_past_the_end[OF ctor_two_buffers] ctor_two_buffers by simp

text \<open>
  Claim C6 says that \<open>EndCommandBuffer\<close> on an idle recorder fails with a recording-not-active
  error instead of closing the native scope or succeeding silently. The code has no such
  check. On the idle slot below, with the driver answering \<open>VK_SUCCESS\<close>, the call issues
  \<open>vkEndCommandBuffer\<close> and returns normally, the members unchanged.
\<close>

theorem EndCommandBuffer_idle_counterexample:
  "IsCommandBufferActive slot0_idle = Inr False
   \<and> EndCommandBuffer VK_SUCCESS (device0, slot0_idle)
       = Inr (device0\<lparr> dev_calls := [vkEndCommandBuffer 2] \<rparr>, slot0_idle)"
  by (simp add: IsCommandBufferActive_def EndCommandBuffer_def store_active_def VKThrowIfFailed_def
      slot0_idle_def members0_def device0_def)

text \<open>
  Claim C6 as amended: \<open>EndCommandBuffer\<close> never reads the activity state. On a slot
  selected by a valid iterator, idle or recording, it issues the native
  \<open>vkEndCommandBuffer\<close> call; it fails exactly when the driver reports a failure, with the
  runtime error of \<open>VKThrowIfFailed\<close>, and otherwise returns with the slot's activity state
  \<open>false\<close>.
\<close>

theorem EndCommandBuffer_ignores_activity:
  assumes "vk_commandBufferActiveIt s < length (vk_commandBufferActiveList s)"
  shows "EndCommandBuffer result (d, s) =
     (if result = VK_SUCCESS
      then Inr (d\<lparr> dev_calls := dev_calls d @ [vkEndCommandBuffer (vk_commandBuffer s)] \<rparr>,
                s\<lparr> vk_commandBufferActiveList :=
                     (vk_commandBufferActiveList s)[vk_commandBufferActiveIt s := False] \<rparr>)
      else Inl (RuntimeError ''failed to end Vulkan command buffer''))
    \<and> (result = VK_SUCCESS \<longrightarrow>
         (\<exists>d' s'. EndCommandBuffer result (d, s) = Inr (d', s') \<and> IsCommandBufferActive s' = Inr False))"
  using assms
  by (simp add: EndCommandBuffer_def store_active_def VKThrowIfFailed_def IsCommandBufferActive_def)

theorem EndCommandBuffer_ignores_activity_witness:
  "EndCommandBuffer VK_SUCCESS (device0, slot0_idle)
     = Inr (device0\<lparr> dev_calls := [vkEndCommandBuffer 2] \<rparr>, slot0_idle)
   \<and> EndCommandBuffer VK_SUCCESS (device0, slot0_recording)
     = Inr (device0\<lparr> dev_calls := [vkEndCommandBuffer 2] \<rparr>, slot0_idle)
   \<and> EndCommandBuffer (- 4) (device0, slot0_idle)
     = Inl (RuntimeError ''failed to end Vulkan command buffer'')"
proof -
  have i: "vk_commandBufferActiveIt slot0_idle < length (vk_commandBufferActiveList slot0_idle)"
    and r: "vk_commandBufferActiveIt slot0_recording < length (vk_commandBufferActiveList slot0_recording)"
    by (simp_all add: slot0_idle_def slot0_recording_def members0_def)
  show ?thesis
    using EndCommandBuffer_ignores_activity[OF i, of VK_SUCCESS device0]
      EndCommandBuffer_ignores_activity[OF r, of VK_SUCCESS device0]
      EndCommandBuffer_ignores_activity[OF i, of "- 4" device0]
    by (simp add: slot0_idle_def slot0_recording_def members0_def device0_def VK_SUCCESS_def)
qed

subsection \<open>Construction of the slot pool\<close>

lemma upt_Suc_shift: "[Suc h..<Suc (Suc (h + n))] = Suc h # [Suc (Suc h)..<Suc (Suc (h + n))]"
  by (simp add: upt_conv_Cons del: upt_Suc)

lemma CreateRecordingFences_loop_ok:
  assumes "\<forall>k\<in>set ks. cr k = VK_SUCCESS"
  shows "\<exists>d' fs'. CreateRecordingFences_loop cr ks (d, fs) = Inr (d', fs')
      \<and> length fs' = length fs
      \<and> dev_handles d' = dev_handles d + length ks
      \<and> dev_calls d' = dev_calls d @ concat (map (\<lambda>f. [vkCreateFence 0, vkQueueSubmit 0 f])
                                               [Suc (dev_handles d)..<Suc (dev_handles d) + length ks])
      \<and> (\<forall>f. dev_fences d' f = (if dev_handles d < f \<and> f \<le> dev_handles d + length ks
                                  then Some True else dev_fences d f))
      \<and> (distinct ks \<longrightarrow> (\<forall>k\<in>set ks. k < length fs) \<longrightarrow>
            map ((!) fs') ks = [Suc (dev_handles d)..<Suc (dev_handles d) + length ks])
      \<and> (\<forall>j. j \<notin> set ks \<longrightarrow> fs' ! j = fs ! j)"
  using assms
proof (induction ks arbitrary: d fs)
  case Nil
  then show ?case by auto
next
  case (Cons k ks)
  let ?h = "dev_handles d"
  let ?d2 = "d\<lparr> dev_handles := Suc ?h,
                 dev_fences := (dev_fences d)(Suc ?h \<mapsto> True),
                 dev_calls := dev_calls d @ [vkCreateFence 0, vkQueueSubmit 0 (Suc ?h)] \<rparr>"
  let ?fs1 = "fs[k := Suc ?h]"
  from Cons.prems have k_ok: "cr k = VK_SUCCESS" and ks_ok: "\<forall>k\<in>set ks. cr k = VK_SUCCESS"
    by simp_all
  have step: "CreateRecordingFences_loop cr (k # ks) (d, fs) = CreateRecordingFences_loop cr ks (?d2, ?fs1)"
    using k_ok by (simp add: VKThrowIfFailed_def Let_def)
  from Cons.IH[OF ks_ok, of ?d2 ?fs1] obtain d' fs' where
    run: "CreateRecordingFences_loop cr ks (?d2, ?fs1) = Inr (d', fs')"
    and len: "length fs' = length ?fs1"
    and hd: "dev_handles d' = dev_handles ?d2 + length ks"
    and calls: "dev_calls d' = dev_calls ?d2 @ concat (map (\<lambda>f. [vkCreateFence 0, vkQueueSubmit 0 f])
                                               [Suc (dev_handles ?d2)..<Suc (dev_handles ?d2) + length ks])"
    and fences: "\<forall>f. dev_fences d' f = (if dev_handles ?d2 < f \<and> f \<le> dev_handles ?d2 + length ks
                                  then Some True else dev_fences ?d2 f)"
    and cells: "distinct ks \<longrightarrow> (\<forall>k\<in>set ks. k < length ?fs1) \<longrightarrow>
            map ((!) fs') ks = [Suc (dev_handles ?d2)..<Suc (dev_handles ?d2) + length ks]"
    and other: "\<forall>j. j \<notin> set ks \<longrightarrow> fs' ! j = ?fs1 ! j"
    by blast
  have c1: "length fs' = length fs" using len by simp
  have c2: "dev_handles d' = ?h + length (k # ks)" using hd by simp
  have c3: "dev_calls d' = dev_calls d @ concat (map (\<lambda>f. [vkCreateFence 0, vkQueueSubmit 0 f])
                                               [Suc ?h..<Suc ?h + length (k # ks)])"
    using calls by (simp add: upt_Suc_shift del: upt_Suc)
  have c4: "\<forall>f. dev_fences d' f = (if ?h < f \<and> f \<le> ?h + length (k # ks)
                                  then Some True else dev_fences d f)"
    using fences by auto
  have c5: "distinct (k # ks) \<longrightarrow> (\<forall>j\<in>set (k # ks). j < length fs) \<longrightarrow>
            map ((!) fs') (k # ks) = [Suc ?h..<Suc ?h + length (k # ks)]"
  proof (intro impI)
    assume dist: "distinct (k # ks)" and bound: "\<forall>j\<in>set (k # ks). j < length fs"
    then have "k \<notin> set ks" and "k < length fs" by simp_all
    then have "fs' ! k = Suc ?h" using other by simp
    moreover have "map ((!) fs') ks = [Suc (Suc ?h)..<Suc (Suc ?h) + length ks]"
      using cells dist bound by simp
    ultimately show "map ((!) fs') (k # ks) = [Suc ?h..<Suc ?h + length (k # ks)]"
      by (simp add: upt_Suc_shift del: upt_Suc)
  qed
  have c6: "\<forall>j. j \<notin> set (k # ks) \<longrightarrow> fs' ! j = fs ! j"
    using other by simp
  have c0: "CreateRecordingFences_loop cr (k # ks) (d, fs) = Inr (d', fs')"
    using step run by simp
  from c0 c1 c2 c3 c4 c5 c6 show ?case
    by - (rule exI[of _ d'], rule exI[of _ fs'], intro conjI, assumption+)
qed

lemma unat_u32_of_nat: "N < 2 ^ 32 \<Longrightarrow> unat (word_of_nat N :: u32) = N"
  by (simp add: unat_of_nat)

lemma CreateCommandPool_ok:
  assumes "r = VK_SUCCESS"
  shows "CreateCommandPool r q (d, s) =
     Inr (d\<lparr> dev_handles := Suc (dev_handles d),
              dev_calls := dev_calls d @
                [vkCreateCommandPool VK_COMMAND_POOL_CREATE_RESET_COMMAND_BUFFER_BIT q] \<rparr>,
          s\<lparr> vk_commandPool := Suc (dev_handles d) \<rparr>)"
  using assms by (simp add: CreateCommandPool_def VKThrowIfFailed_def Let_def)

lemma CreateCommandBuffers_ok:
  assumes "r = VK_SUCCESS" and "0 < N" and "N < 2 ^ 32"
    and "vk_commandBufferList s = []" and "vk_commandBufferActiveList s = []"
  shows "CreateCommandBuffers r N (d, s) =
     Inr (d\<lparr> dev_handles := dev_handles d + N,
              dev_calls := dev_calls d @ [vkAllocateCommandBuffers (vk_commandPool s) (word_of_nat N)] \<rparr>,
          s\<lparr> vk_commandBufferList := [Suc (dev_handles d)..<Suc (dev_handles d) + N],
             vk_commandBuffer := Suc (dev_handles d),
             vk_commandBufferActiveList := replicate N False,
             vk_commandBufferActiveIt := N \<rparr>)"
proof -
  have u: "unat (word_of_nat N :: u32) = N"
    using assms(3) by (rule unat_u32_of_nat)
  have m: "map (\<lambda>k. dev_handles d + Suc k) [0..<N] = [Suc (dev_handles d)..<Suc (dev_handles d) + N]"
    using map_add_upt[of "Suc (dev_handles d)" N] by (simp add: add.commute)
  from assms(2) obtain M where N: "N = Suc M"
    by (cases N) simp_all
  have c: "[Suc (dev_handles d)..<Suc (dev_handles d) + N]
      = Suc (dev_handles d) # [Suc (Suc (dev_handles d))..<Suc (dev_handles d) + N]"
    unfolding N by (simp add: upt_conv_Cons del: upt_Suc)
  have mc: "map (\<lambda>k. Suc (dev_handles d + k)) [0..<N]
      = Suc (dev_handles d) # [Suc (Suc (dev_handles d))..<Suc (dev_handles d + N)]"
    using m c by simp
  have goal: "[Suc (dev_handles d)..<Suc (dev_handles d + N)]
      = Suc (dev_handles d) # [Suc (Suc (dev_handles d))..<Suc (dev_handles d + N)]"
    using c by simp
  show ?thesis
    unfolding CreateCommandBuffers_def
    using assms(1,4,5)
    by (simp add: u mc goal resize_def VKThrowIfFailed_def Let_def del: upt_Suc)
qed

lemma CreateRecordingFences_ok:
  assumes "\<forall>k<N. cr k = VK_SUCCESS" and "0 < N" and "vk_recordingFenceList s = []"
  shows "\<exists>d'. CreateRecordingFences cr N (d, s) =
       Inr (d', s\<lparr> vk_recordingFenceList := [Suc (dev_handles d)..<Suc (dev_handles d) + N],
                    vk_recordingFence := Suc (dev_handles d) \<rparr>)
     \<and> dev_handles d' = dev_handles d + N
     \<and> dev_calls d' = dev_calls d @ concat (map (\<lambda>f. [vkCreateFence 0, vkQueueSubmit 0 f])
                                               [Suc (dev_handles d)..<Suc (dev_handles d) + N])
     \<and> (\<forall>f. dev_fences d' f = (if dev_handles d < f \<and> f \<le> dev_handles d + N
                                  then Some True else dev_fences d f))"
proof -
  let ?fs = "replicate N (0::nat)"
  have ks: "\<forall>k\<in>set [0..<N]. cr k = VK_SUCCESS"
    using assms(1) by simp
  from CreateRecordingFences_loop_ok[OF ks, of d ?fs] obtain d' fs' where
    run: "CreateRecordingFences_loop cr [0..<N] (d, ?fs) = Inr (d', fs')"
    and len: "length fs' = N"
    and hd: "dev_handles d' = dev_handles d + N"
    and calls: "dev_calls d' = dev_calls d @ concat (map (\<lambda>f. [vkCreateFence 0, vkQueueSubmit 0 f])
                                               [Suc (dev_handles d)..<Suc (dev_handles d) + N])"
    and fences: "\<forall>f. dev_fences d' f = (if dev_handles d < f \<and> f \<le> dev_handles d + N
                                  then Some True else dev_fences d f)"
    and cells: "map ((!) fs') [0..<N] = [Suc (dev_handles d)..<Suc (dev_handles d) + N]"
    by auto
  have "map ((!) fs') [0..<length fs'] = fs'"
    by (rule map_nth)
  then have fs': "fs' = [Suc (dev_handles d)..<Suc (dev_handles d) + N]"
    using cells len by simp
  from assms(2) obtain M where N: "N = Suc M"
    by (cases N) simp_all
  have c: "[Suc (dev_handles d)..<Suc (dev_handles d) + N]
      = Suc (dev_handles d) # [Suc (Suc (dev_handles d))..<Suc (dev_handles d) + N]"
    unfolding N by (simp add: upt_conv_Cons del: upt_Suc)
  have "CreateRecordingFences cr N (d, s) =
       Inr (d', s\<lparr> vk_recordingFenceList := [Suc (dev_handles d)..<Suc (dev_handles d) + N],
                    vk_recordingFence := Suc (dev_handles d) \<rparr>)"
    unfolding CreateRecordingFences_def
    using run assms(3) c
    by (simp add: resize_def fs' Let_def del: upt_Suc)
  then show ?thesis
    using hd calls fences by blast
qed


lemma BeginCommandBuffer_on_signaled_slot:
  assumes "dev_fences d (vk_recordingFence s) = Some True"
    and "vk_commandBufferActiveIt s < length (vk_commandBufferActiveList s)"
  shows "\<exists>d' s'. BeginCommandBuffer VK_SUCCESS (d, s) = Inr (d', s')
     \<and> IsCommandBufferActive s' = Inr True
     \<and> dev_calls d' = dev_calls d @ [vkWaitForFences (vk_recordingFence s),
          vkResetFences (vk_recordingFence s),
          vkBeginCommandBuffer (vk_commandBuffer s) VK_COMMAND_BUFFER_USAGE_SIMULTANEOUS_USE_BIT]"
  using assms
  by (simp add: BeginCommandBuffer_def store_active_def VKThrowIfFailed_def IsCommandBufferActive_def Let_def)

text \<open>
  Claim C7: constructing the recorder with buffering depth \<open>N\<close> (at least one, below
  \<open>2^32\<close>, the driver reporting success) returns; exactly \<open>N\<close> command buffer handles are
  allocated by one \<open>vkAllocateCommandBuffers\<close> call and \<open>N\<close> fences are created, all handles
  fresh and distinct; every fence is created and then signaled by a \<open>vkQueueSubmit\<close> of no
  work, in this order, and is signaled when the constructor returns; hence for every slot index
  below \<open>N\<close>, \<open>SetPresentIndex\<close> followed by \<open>BeginCommandBuffer\<close> gets past the fence wait,
  opens the recording scope and marks the slot active.
\<close>

theorem ctor_slots_and_presignaled_fences:
  assumes "res_vkCreateCommandPool res = VK_SUCCESS"
    and "res_vkAllocateCommandBuffers res = VK_SUCCESS"
    and "\<forall>k<N. res_vkCreateFence res k = VK_SUCCESS"
    and "0 < N" and "N < 2 ^ 32"
  shows "\<exists>d s. VKCommandBuffer_ctor res device members N graphicsFamily presentFamily = Inr (d, s)
     \<and> length (vk_commandBufferList s) = N
     \<and> length (vk_recordingFenceList s) = N
     \<and> length (vk_commandBufferActiveList s) = N
     \<and> distinct (vk_commandBufferList s @ vk_recordingFenceList s)
     \<and> (\<forall>h\<in>set (vk_commandBufferList s @ vk_recordingFenceList s). dev_handles device < h)
     \<and> dev_calls d = dev_calls device
          @ [vkCreateCommandPool VK_COMMAND_POOL_CREATE_RESET_COMMAND_BUFFER_BIT graphicsFamily,
             vkAllocateCommandBuffers (vk_commandPool s) (word_of_nat N)]
          @ concat (map (\<lambda>f. [vkCreateFence 0, vkQueueSubmit 0 f]) (vk_recordingFenceList s))
     \<and> (\<forall>f\<in>set (vk_recordingFenceList s). dev_fences d f = Some True)
     \<and> (\<forall>idx. unat idx < N \<longrightarrow>
           (\<exists>s1 d2 s2. SetPresentIndex idx s = Inr s1
              \<and> vk_recordingFence s1 = vk_recordingFenceList s ! unat idx
              \<and> vk_commandBuffer s1 = vk_commandBufferList s ! unat idx
              \<and> BeginCommandBuffer VK_SUCCESS (d, s1) = Inr (d2, s2)
              \<and> IsCommandBufferActive s2 = Inr True))"
proof -
  let ?h = "dev_handles device"
  let ?s0 = "members\<lparr> vk_queuePresentFamily := presentFamily, vk_commandBufferList := [],
                      vk_commandBufferActiveList := [], vk_recordingFenceList := [] \<rparr>"
  let ?d1 = "device\<lparr> dev_handles := Suc ?h,
              dev_calls := dev_calls device @
                [vkCreateCommandPool VK_COMMAND_POOL_CREATE_RESET_COMMAND_BUFFER_BIT graphicsFamily] \<rparr>"
  let ?s1 = "?s0\<lparr> vk_commandPool := Suc ?h \<rparr>"
  let ?d2 = "?d1\<lparr> dev_handles := dev_handles ?d1 + N,
              dev_calls := dev_calls ?d1 @ [vkAllocateCommandBuffers (vk_commandPool ?s1) (word_of_nat N)] \<rparr>"
  let ?s2 = "?s1\<lparr> vk_commandBufferList := [Suc (dev_handles ?d1)..<Suc (dev_handles ?d1) + N],
             vk_commandBuffer := Suc (dev_handles ?d1),
             vk_commandBufferActiveList := replicate N False,
             vk_commandBufferActiveIt := N \<rparr>"
  let ?s3 = "?s2\<lparr> vk_recordingFenceList := [Suc (dev_handles ?d2)..<Suc (dev_handles ?d2) + N],
                    vk_recordingFence := Suc (dev_handles ?d2) \<rparr>"
  have p1: "CreateCommandPool (res_vkCreateCommandPool res) graphicsFamily (device, ?s0) = Inr (?d1, ?s1)"
    using assms(1) by (rule CreateCommandPool_ok)
  have p2: "CreateCommandBuffers (res_vkAllocateCommandBuffers res) N (?d1, ?s1) = Inr (?d2, ?s2)"
    by (rule CreateCommandBuffers_ok[OF assms(2) assms(4) assms(5)]) simp_all
  from CreateRecordingFences_ok[OF assms(3) assms(4), of ?s2 ?d2] obtain d3 where
    p3: "CreateRecordingFences (res_vkCreateFence res) N (?d2, ?s2) = Inr (d3, ?s3)"
    and calls: "dev_calls d3 = dev_calls ?d2 @ concat (map (\<lambda>f. [vkCreateFence 0, vkQueueSubmit 0 f])
                                               [Suc (dev_handles ?d2)..<Suc (dev_handles ?d2) + N])"
    and fences: "\<forall>f. dev_fences d3 f = (if dev_handles ?d2 < f \<and> f \<le> dev_handles ?d2 + N
                                  then Some True else dev_fences ?d2 f)"
    by auto
  have run: "VKCommandBuffer_ctor res device members N graphicsFamily presentFamily = Inr (d3, ?s3)"
    unfolding VKCommandBuffer_ctor_def Let_def p1 using p2 p3 by simp
  have a: "length (vk_commandBufferList ?s3) = N" "length (vk_recordingFenceList ?s3) = N"
    "length (vk_commandBufferActiveList ?s3) = N"
    by (simp_all del: upt_Suc)
  have b: "distinct (vk_commandBufferList ?s3 @ vk_recordingFenceList ?s3)"
    by auto
  have b': "\<forall>h\<in>set (vk_commandBufferList ?s3 @ vk_recordingFenceList ?s3). dev_handles device < h"
    by auto
  have c: "dev_calls d3 = dev_calls device
          @ [vkCreateCommandPool VK_COMMAND_POOL_CREATE_RESET_COMMAND_BUFFER_BIT graphicsFamily,
             vkAllocateCommandBuffers (vk_commandPool ?s3) (word_of_nat N)]
          @ concat (map (\<lambda>f. [vkCreateFence 0, vkQueueSubmit 0 f]) (vk_recordingFenceList ?s3))"
    using calls by simp
  have e: "\<forall>f\<in>set (vk_recordingFenceList ?s3). dev_fences d3 f = Some True"
    using fences by auto
  have f: "\<forall>idx. unat idx < N \<longrightarrow>
           (\<exists>s1 d2 s2. SetPresentIndex idx ?s3 = Inr s1
              \<and> vk_recordingFence s1 = vk_recordingFenceList ?s3 ! unat idx
              \<and> vk_commandBuffer s1 = vk_commandBufferList ?s3 ! unat idx
              \<and> BeginCommandBuffer VK_SUCCESS (d3, s1) = Inr (d2, s2)
              \<and> IsCommandBufferActive s2 = Inr True)"
  proof (intro allI impI)
    fix idx :: u32
    assume lt: "unat idx < N"
    let ?s4 = "?s3\<lparr> vk_commandBuffer := vk_commandBufferList ?s3 ! unat idx,
                    vk_commandBufferActiveIt := 0 + unat idx,
                    vk_recordingFence := vk_recordingFenceList ?s3 ! unat idx \<rparr>"
    have sp: "SetPresentIndex idx ?s3 = Inr ?s4"
      using lt by (simp add: SetPresentIndex_def del: upt_Suc)
    have "vk_recordingFence ?s4 \<in> set (vk_recordingFenceList ?s3)"
      using lt by (simp del: upt_Suc)
    then have sig: "dev_fences d3 (vk_recordingFence ?s4) = Some True"
      using e by blast
    have it: "vk_commandBufferActiveIt ?s4 < length (vk_commandBufferActiveList ?s4)"
      using lt by (simp del: upt_Suc)
    from BeginCommandBuffer_on_signaled_slot[OF sig it] obtain d5 s5 where
      "BeginCommandBuffer VK_SUCCESS (d3, ?s4) = Inr (d5, s5)" "IsCommandBufferActive s5 = Inr True"
      by blast
    with sp show "\<exists>s1 d2 s2. SetPresentIndex idx ?s3 = Inr s1
              \<and> vk_recordingFence s1 = vk_recordingFenceList ?s3 ! unat idx
              \<and> vk_commandBuffer s1 = vk_commandBufferList ?s3 ! unat idx
              \<and> BeginCommandBuffer VK_SUCCESS (d3, s1) = Inr (d2, s2)
              \<and> IsCommandBufferActive s2 = Inr True"
      by (intro exI[of _ ?s4] exI[of _ d5] exI[of _ s5]) simp
  qed
  from run a b b' c e f show ?thesis
    by - (rule exI[of _ d3], rule exI[of _ ?s3], intro conjI, assumption+)
qed


theorem ctor_slots_and_presignaled_fences_witness:
  "res_vkCreateCommandPool results_ok = VK_SUCCESS
   \<and> res_vkAllocateCommandBuffers results_ok = VK_SUCCESS
   \<and> res_vkCreateFence results_ok 0 = VK_SUCCESS
   \<and> res_vkCreateFence results_ok 1 = VK_SUCCESS
   \<and> (\<exists>d s. VKCommandBuffer_ctor results_ok device0 members0 2 0 0 = Inr (d, s)
         \<and> length (vk_commandBufferList s) = 2
         \<and> length (vk_recordingFenceList s) = 2
         \<and> dev_calls d = [vkCreateCommandPool VK_COMMAND_POOL_CREATE_RESET_COMMAND_BUFFER_BIT 0,
                           vkAllocateCommandBuffers (vk_commandPool s) 2]
              @ concat (map (\<lambda>f. [vkCreateFence 0, vkQueueSubmit 0 f]) (vk_recordingFenceList s))
         \<and> (\<forall>f\<in>set (vk_recordingFenceList s). dev_fences d f = Some True)
         \<and> (\<forall>idx. unat idx < 2 \<longrightarrow>
               (\<exists>s1 d2 s2. SetPresentIndex idx s = Inr s1
                  \<and> BeginCommandBuffer VK_SUCCESS (d, s1) = Inr (d2, s2)
                  \<and> IsCommandBufferActive s2 = Inr True)))"
proof -
  have h1: "res_vkCreateCommandPool results_ok = VK_SUCCESS"
    and h2: "res_vkAllocateCommandBuffers results_ok = VK_SUCCESS"
    and h3: "\<forall>k<2. res_vkCreateFence results_ok k = VK_SUCCESS"
    and h4: "(0::nat) < 2" and h5: "(2::nat) < 2 ^ 32"
    by (simp_all add: results_ok_def)
  from ctor_slots_and_presignaled_fences[OF h1 h2 h3 h4 h5, of device0 members0 0 0]
  obtain d s where
    "VKCommandBuffer_ctor results_ok device0 members0 2 0 0 = Inr (d, s)"
    "length (vk_commandBufferList s) = 2" "length (vk_recordingFenceList s) = 2"
    "dev_calls d = dev_calls device0
          @ [vkCreateCommandPool VK_COMMAND_POOL_CREATE_RESET_COMMAND_BUFFER_BIT 0,
             vkAllocateCommandBuffers (vk_commandPool s) (word_of_nat 2)]
          @ concat (map (\<lambda>f. [vkCreateFence 0, vkQueueSubmit 0 f]) (vk_recordingFenceList s))"
    "\<forall>f\<in>set (vk_recordingFenceList s). dev_fences d f = Some True"
    "\<forall>idx. unat idx < 2 \<longrightarrow>
           (\<exists>s1 d2 s2. SetPresentIndex idx s = Inr s1
              \<and> vk_recordingFence s1 = vk_recordingFenceList s ! unat idx
              \<and> vk_commandBuffer s1 = vk_commandBufferList s ! unat idx
              \<and> BeginCommandBuffer VK_SUCCESS (d, s1) = Inr (d2, s2)
              \<and> IsCommandBufferActive s2 = Inr True)"
    by blast
  then have "\<exists>d s. VKCommandBuffer_ctor results_ok device0 members0 2 0 0 = Inr (d, s)
         \<and> length (vk_commandBufferList s) = 2
         \<and> length (vk_recordingFenceList s) = 2
         \<and> dev_calls d = [vkCreateCommandPool VK_COMMAND_POOL_CREATE_RESET_COMMAND_BUFFER_BIT 0,
                           vkAllocateCommandBuffers (vk_commandPool s) 2]
              @ concat (map (\<lambda>f. [vkCreateFence 0, vkQueueSubmit 0 f]) (vk_recordingFenceList s))
         \<and> (\<forall>f\<in>set (vk_recordingFenceList s). dev_fences d f = Some True)
         \<and> (\<forall>idx. unat idx < 2 \<longrightarrow>
               (\<exists>s1 d2 s2. SetPresentIndex idx s = Inr s1
                  \<and> BeginCommandBuffer VK_SUCCESS (d, s1) = Inr (d2, s2)
                  \<and> IsCommandBufferActive s2 = Inr True))"
    by (intro exI[of _ d] exI[of _ s]) (simp add: device0_def, blast)
  then show ?thesis
    by (simp add: results_ok_def)
qed

section \<open>Properties of the render target\<close>

subsection \<open>Counting colour attachments\<close>

lemma CountColorAttachments_loop_eq:
  "CountColorAttachments_loop as n = n + length (filter (\<lambda>a. att_type a = Color) as)"
  by (induction as arbitrary: n) simp_all

lemma CountColorAttachments_eq:
  "CountColorAttachments as s =
     (if g_maxFramebufferAttachments < length (filter (\<lambda>a. att_type a = Color) as)
      then Inl (TooManyColorAttachments g_maxFramebufferAttachments, s)
      else Inr (length (filter (\<lambda>a. att_type a = Color) as)))"
  by (simp add: CountColorAttachments_def CountColorAttachments_loop_eq ErrTooManyColorAttachments_def)

lemma CreateAndAttachRenderbuffer_errors:
  "CreateAndAttachRenderbuffer f a s = Inl (e, s') \<Longrightarrow> e = DepthAttachmentFailed"
  by (auto simp: CreateAndAttachRenderbuffer_def ErrDepthAttachmentFailed_def Let_def split: if_splits)

lemma Attach_buffer_errors:
  "AttachDepthBuffer s = Inl (e, s') \<Longrightarrow> e = DepthAttachmentFailed"
  "AttachStencilBuffer s = Inl (e, s') \<Longrightarrow> e = DepthAttachmentFailed"
  "AttachDepthStencilBuffer s = Inl (e, s') \<Longrightarrow> e = DepthAttachmentFailed"
  by (auto simp: AttachDepthBuffer_def AttachStencilBuffer_def AttachDepthStencilBuffer_def
      split: sum.splits dest: CreateAndAttachRenderbuffer_errors)

lemma AttachAllDepthStencilBuffers_errors:
  "AttachAllDepthStencilBuffers as s = Inl (e, s')
     \<Longrightarrow> e = DepthAttachmentFailed \<or> e = ColorAttachmentWithoutTexture"
proof (induction as arbitrary: s)
  case Nil
  then show ?case by simp
next
  case (Cons a as)
  then show ?case
    by (auto split: if_splits sum.splits AttachmentType.splits dest: Attach_buffer_errors)
qed

lemma MakeFramebufferAttachment_errors:
  "MakeFramebufferAttachment f s = Inl (e, s') \<Longrightarrow> e = DepthAttachmentFailed"
  by (auto simp: MakeFramebufferAttachment_def ErrDepthAttachmentFailed_def Let_def split: if_splits)

lemma AttachTexture_errors:
  "AttachTexture env t a i sf = Inl (e, s')
     \<Longrightarrow> e = MipResolutionInvalid \<or> e = InternalFormatsOverrun i \<or> e = DepthAttachmentFailed"
  by (auto simp: AttachTexture_def Let_def GetTexInternalFormat_def
      split: prod.splits if_splits sum.splits dest: MakeFramebufferAttachment_errors)

lemma AttachAllTextures_loop_errors:
  "AttachAllTextures_loop env as i sf = Inl (e, s')
     \<Longrightarrow> e = MipResolutionInvalid \<or> (\<exists>j. e = InternalFormatsOverrun j) \<or> e = DepthAttachmentFailed"
proof (induction as arbitrary: i sf)
  case Nil
  then show ?case by simp
next
  case (Cons a as)
  then show ?case
    by (auto split: option.splits sum.splits dest: AttachTexture_errors)
qed

lemma ValidateFramebufferStatus_errors:
  "ValidateFramebufferStatus env info s = Inl (e, s') \<Longrightarrow> e = FramebufferIncomplete info"
  by (auto simp: ValidateFramebufferStatus_def Let_def split: if_splits)

lemma CreateRenderbuffersMS_loop_errors:
  "CreateRenderbuffersMS_loop fmts is s = Inl (e, s') \<Longrightarrow> \<exists>i. e = InternalFormatsUninitialized i"
proof (induction "is" arbitrary: s)
  case Nil
  then show ?case by simp
next
  case (Cons i "is")
  then show ?case
    by (auto split: option.splits if_splits)
qed

lemma CreateRenderbuffersMS_errors:
  "CreateRenderbuffersMS env fmts s = Inl (e, s')
     \<Longrightarrow> (\<exists>i. e = InternalFormatsUninitialized i) \<or> (\<exists>info. e = FramebufferIncomplete info)"
  by (auto simp: CreateRenderbuffersMS_def split: sum.splits
      dest: CreateRenderbuffersMS_loop_errors ValidateFramebufferStatus_errors)

lemma CreateFramebufferWithAttachments_TooMany:
  assumes "CreateFramebufferWithAttachments env desc s = Inl (TooManyColorAttachments n, s')"
  shows "g_maxFramebufferAttachments < length (filter (\<lambda>a. att_type a = Color) (desc_attachments desc))"
proof (rule ccontr)
  assume "\<not> ?thesis"
  then have cnt: "\<And>t. CountColorAttachments (desc_attachments desc) t
      = Inr (length (filter (\<lambda>a. att_type a = Color) (desc_attachments desc)))"
    by (simp add: CountColorAttachments_eq)
  from assms show False
    unfolding CreateFramebufferWithAttachments_def Let_def cnt
    by (auto simp: AttachAllTextures_def split: sum.splits if_splits prod.splits
        dest: AttachAllDepthStencilBuffers_errors AttachAllTextures_loop_errors
          ValidateFramebufferStatus_errors CreateRenderbuffersMS_errors)
qed


text \<open>
  Claim C8: a descriptor with more than 32 colour-kind attachments makes the constructor fail
  with the too-many-colour-attachments error before anything is attached: at the throw only
  the framebuffer objects have been generated, no colour attachment, renderbuffer or blit-mask
  bit exists. With 32 or fewer colour-kind attachments the constructor never ends with this
  error.
\<close>

theorem too_many_color_attachments:
  "(32 < length (filter (\<lambda>a. att_type a = Color) (desc_attachments desc)) \<longrightarrow>
      (\<exists>s. GLRenderTarget_ctor env names calls desc = Inl (TooManyColorAttachments 32, s)
         \<and> gl_colorAttachments s = [] \<and> gl_renderbuffer s = 0 \<and> gl_renderbuffersMS s = []
         \<and> gl_blitMask s = 0
         \<and> gl_calls s = calls @
              (if 1 < sint (desc_sampleCount desc) \<and> \<not> desc_customMultiSampling desc
               then [GenFramebuffer (Suc names), GenFramebuffer (Suc (Suc names))]
               else [GenFramebuffer (Suc names)])))
   \<and> (length (filter (\<lambda>a. att_type a = Color) (desc_attachments desc)) \<le> 32 \<longrightarrow>
      (\<forall>n s. GLRenderTarget_ctor env names calls desc \<noteq> Inl (TooManyColorAttachments n, s)))"
proof (intro conjI impI)
  assume many: "32 < length (filter (\<lambda>a. att_type a = Color) (desc_attachments desc))"
  then have ne: "desc_attachments desc \<noteq> []"
    by auto
  show "\<exists>s. GLRenderTarget_ctor env names calls desc = Inl (TooManyColorAttachments 32, s)
         \<and> gl_colorAttachments s = [] \<and> gl_renderbuffer s = 0 \<and> gl_renderbuffersMS s = []
         \<and> gl_blitMask s = 0
         \<and> gl_calls s = calls @
              (if 1 < sint (desc_sampleCount desc) \<and> \<not> desc_customMultiSampling desc
               then [GenFramebuffer (Suc names), GenFramebuffer (Suc (Suc names))]
               else [GenFramebuffer (Suc names)])"
    using many ne
    by (simp add: GLRenderTarget_ctor_def CreateFramebufferWithAttachments_def CountColorAttachments_eq
        g_maxFramebufferAttachments_def GenFramebuffer_primary_def GenFramebuffer_MS_def
        HasMultiSampling_def emit_def Let_def)
next
  assume few: "length (filter (\<lambda>a. att_type a = Color) (desc_attachments desc)) \<le> 32"
  show "\<forall>n s. GLRenderTarget_ctor env names calls desc \<noteq> Inl (TooManyColorAttachments n, s)"
  proof (intro allI notI)
    fix n s
    assume run: "GLRenderTarget_ctor env names calls desc = Inl (TooManyColorAttachments n, s)"
    show False
    proof (cases "desc_attachments desc = []")
      case True
      with run show False
        by (auto simp: GLRenderTarget_ctor_def CreateFramebufferWithNoAttachments_def Let_def
            dest: ValidateFramebufferStatus_errors)
    next
      case False
      with run obtain s1 where
        "CreateFramebufferWithAttachments env desc s1 = Inl (TooManyColorAttachments n, s)"
        by (auto simp: GLRenderTarget_ctor_def Let_def)
      from CreateFramebufferWithAttachments_TooMany[OF this] few show False
        by (simp add: g_maxFramebufferAttachments_def)
    qed
  qed
qed

lemma color_attachments_32: "length (filter (\<lambda>a. att_type a = Color) (color_attachments 32)) = 32"
  by (simp add: color_attachments_def attachment_def)

lemma color_attachments_33: "length (filter (\<lambda>a. att_type a = Color) (color_attachments 33)) = 33"
  by (simp add: color_attachments_def attachment_def)

theorem too_many_color_attachments_witness:
  "(\<exists>s. GLRenderTarget_ctor env_ok 0 [] (descriptor (color_attachments 33) 1)
           = Inl (TooManyColorAttachments 32, s)
        \<and> gl_colorAttachments s = [] \<and> gl_calls s = [GenFramebuffer 1])
   \<and> (\<forall>n s. GLRenderTarget_ctor env_ok 0 [] (descriptor (color_attachments 32) 1)
           \<noteq> Inl (TooManyColorAttachments n, s))"
  using too_many_color_attachments[of "descriptor (color_attachments 33) 1" env_ok 0 "[]"]
    too_many_color_attachments[of "descriptor (color_attachments 32) 1" env_ok 0 "[]"]
  by (auto simp: descriptor_def color_attachments_32 color_attachments_33)

subsection \<open>Colour-only render targets\<close>

lemma AttachAllDepthStencilBuffers_all_textured:
  "\<forall>a\<in>set as. att_texture a \<noteq> None \<Longrightarrow> AttachAllDepthStencilBuffers as s = Inr s"
  by (induction as arbitrary: s) auto

lemma color_bit_keeps_depth_stencil:
  "(m OR GL_COLOR_BUFFER_BIT) AND GL_DEPTH_BUFFER_BIT = m AND GL_DEPTH_BUFFER_BIT"
  "(m OR GL_COLOR_BUFFER_BIT) AND GL_STENCIL_BUFFER_BIT = m AND GL_STENCIL_BUFFER_BIT"
  by (simp_all add: GL_COLOR_BUFFER_BIT_def GL_DEPTH_BUFFER_BIT_def GL_STENCIL_BUFFER_BIT_def
      bit.conj_disj_distrib2)

lemma AttachTexture_color:
  assumes "env_mip_resolution_valid env t (att_mipLevel a)"
    and "tex_InternalFormat t \<noteq> GL_DEPTH_COMPONENT" and "tex_InternalFormat t \<noteq> GL_DEPTH_STENCIL"
    and "i < length fmts"
  shows "\<exists>s'. AttachTexture env t a i (s, fmts) = Inr (s', fmts[i := Some (tex_InternalFormat t)])
     \<and> gl_colorAttachments s' = gl_colorAttachments s
          @ [GL_COLOR_ATTACHMENT0 + word_of_nat (length (gl_colorAttachments s))]
     \<and> gl_blitMask s' = gl_blitMask s OR GL_COLOR_BUFFER_BIT
     \<and> gl_framebufferMS s' = gl_framebufferMS s
     \<and> gl_framebuffer s' = gl_framebuffer s"
  using assms
  by (simp add: AttachTexture_def GetTexInternalFormat_def MakeFramebufferAttachment_def emit_def Let_def)

lemma AttachAllTextures_loop_colors:
  assumes "\<forall>a\<in>set as. \<exists>t. att_texture a = Some t
             \<and> tex_InternalFormat t \<noteq> GL_DEPTH_COMPONENT \<and> tex_InternalFormat t \<noteq> GL_DEPTH_STENCIL
             \<and> env_mip_resolution_valid env t (att_mipLevel a)"
    and "i + length as \<le> length fmts"
  shows "\<exists>s' fmts'. AttachAllTextures_loop env as i (s, fmts) = Inr (s', fmts')
     \<and> length (gl_colorAttachments s') = length (gl_colorAttachments s) + length as
     \<and> gl_blitMask s' AND GL_DEPTH_BUFFER_BIT = gl_blitMask s AND GL_DEPTH_BUFFER_BIT
     \<and> gl_blitMask s' AND GL_STENCIL_BUFFER_BIT = gl_blitMask s AND GL_STENCIL_BUFFER_BIT
     \<and> gl_framebufferMS s' = gl_framebufferMS s
     \<and> gl_framebuffer s' = gl_framebuffer s
     \<and> length fmts' = length fmts
     \<and> (\<forall>j<i. fmts' ! j = fmts ! j)
     \<and> (\<forall>j. i \<le> j \<and> j < i + length as \<longrightarrow> fmts' ! j \<noteq> None)"
  using assms
proof (induction as arbitrary: i s fmts)
  case Nil
  then show ?case by auto
next
  case (Cons a as)
  from Cons.prems(1) obtain t where t: "att_texture a = Some t"
    "tex_InternalFormat t \<noteq> GL_DEPTH_COMPONENT" "tex_InternalFormat t \<noteq> GL_DEPTH_STENCIL"
    "env_mip_resolution_valid env t (att_mipLevel a)"
    by auto
  from Cons.prems(2) have i: "i < length fmts"
    by simp
  let ?fmts1 = "fmts[i := Some (tex_InternalFormat t)]"
  from AttachTexture_color[OF t(4) t(2) t(3) i, of s] obtain s1 where
    step: "AttachTexture env t a i (s, fmts) = Inr (s1, ?fmts1)"
    and s1: "gl_colorAttachments s1 = gl_colorAttachments s
          @ [GL_COLOR_ATTACHMENT0 + word_of_nat (length (gl_colorAttachments s))]"
      "gl_blitMask s1 = gl_blitMask s OR GL_COLOR_BUFFER_BIT"
      "gl_framebufferMS s1 = gl_framebufferMS s" "gl_framebuffer s1 = gl_framebuffer s"
    by blast
  have rest: "\<forall>a\<in>set as. \<exists>t. att_texture a = Some t
             \<and> tex_InternalFormat t \<noteq> GL_DEPTH_COMPONENT \<and> tex_InternalFormat t \<noteq> GL_DEPTH_STENCIL
             \<and> env_mip_resolution_valid env t (att_mipLevel a)"
    using Cons.prems(1) by simp
  have room: "(i + 1) + length as \<le> length ?fmts1"
    using Cons.prems(2) by simp
  from Cons.IH[OF rest room, of s1] obtain s' fmts' where
    run: "AttachAllTextures_loop env as (i + 1) (s1, ?fmts1) = Inr (s', fmts')"
    and r: "length (gl_colorAttachments s') = length (gl_colorAttachments s1) + length as"
      "gl_blitMask s' AND GL_DEPTH_BUFFER_BIT = gl_blitMask s1 AND GL_DEPTH_BUFFER_BIT"
      "gl_blitMask s' AND GL_STENCIL_BUFFER_BIT = gl_blitMask s1 AND GL_STENCIL_BUFFER_BIT"
      "gl_framebufferMS s' = gl_framebufferMS s1"
      "gl_framebuffer s' = gl_framebuffer s1"
      "length fmts' = length ?fmts1"
    and low: "\<forall>j<i + 1. fmts' ! j = ?fmts1 ! j"
    and high: "\<forall>j. i + 1 \<le> j \<and> j < (i + 1) + length as \<longrightarrow> fmts' ! j \<noteq> None"
    by blast
  have c0: "AttachAllTextures_loop env (a # as) i (s, fmts) = Inr (s', fmts')"
    using t(1) step run by simp
  have c1: "length (gl_colorAttachments s') = length (gl_colorAttachments s) + length (a # as)"
    using r(1) s1(1) by simp
  have c2: "gl_blitMask s' AND GL_DEPTH_BUFFER_BIT = gl_blitMask s AND GL_DEPTH_BUFFER_BIT"
    using r(2) s1(2) by (simp add: color_bit_keeps_depth_stencil)
  have c3: "gl_blitMask s' AND GL_STENCIL_BUFFER_BIT = gl_blitMask s AND GL_STENCIL_BUFFER_BIT"
    using r(3) s1(2) by (simp add: color_bit_keeps_depth_stencil)
  have c4: "gl_framebufferMS s' = gl_framebufferMS s" "gl_framebuffer s' = gl_framebuffer s"
    "length fmts' = length fmts"
    using r(4,5,6) s1(3,4) by simp_all
  have c5: "\<forall>j<i. fmts' ! j = fmts ! j"
    using low by simp
  have c6: "\<forall>j. i \<le> j \<and> j < i + length (a # as) \<longrightarrow> fmts' ! j \<noteq> None"
  proof (intro allI impI)
    fix j
    assume j: "i \<le> j \<and> j < i + length (a # as)"
    show "fmts' ! j \<noteq> None"
    proof (cases "j = i")
      case True
      then have "fmts' ! j = ?fmts1 ! i" using low by simp
      then show ?thesis using i by simp
    next
      case False
      with j have "i + 1 \<le> j \<and> j < (i + 1) + length as" by simp
      then show ?thesis using high by blast
    qed
  qed
  from c0 c1 c2 c3 c4 c5 c6 show ?case
    by - (rule exI[of _ s'], rule exI[of _ fmts'], intro conjI, assumption+)
qed


lemma emit_fields [simp]:
  "gl_colorAttachments (emit c s) = gl_colorAttachments s"
  "gl_blitMask (emit c s) = gl_blitMask s"
  "gl_framebufferMS (emit c s) = gl_framebufferMS s"
  "gl_framebuffer (emit c s) = gl_framebuffer s"
  "gl_renderbuffer (emit c s) = gl_renderbuffer s"
  "gl_multiSamples (emit c s) = gl_multiSamples s"
  "gl_resolution (emit c s) = gl_resolution s"
  "gl_names (emit c s) = gl_names s"
  "gl_calls (emit c s) = gl_calls s @ [c]"
  by (simp_all add: emit_def)

lemma SetDrawBuffers_fields [simp]:
  "gl_colorAttachments (SetDrawBuffers s) = gl_colorAttachments s"
  "gl_blitMask (SetDrawBuffers s) = gl_blitMask s"
  "gl_framebufferMS (SetDrawBuffers s) = gl_framebufferMS s"
  "gl_renderbuffer (SetDrawBuffers s) = gl_renderbuffer s"
  by (simp_all add: SetDrawBuffers_def split: list.splits)

lemma ValidateFramebufferStatus_complete:
  "env_framebuffer_complete env (gl_calls s)
     \<Longrightarrow> ValidateFramebufferStatus env info s = Inr (emit glCheckFramebufferStatus s)"
  by (simp add: ValidateFramebufferStatus_def Let_def)

lemma CreateRenderbufferMS_fields [simp]:
  "gl_colorAttachments (CreateRenderbufferMS a f s) = gl_colorAttachments s"
  "gl_blitMask (CreateRenderbufferMS a f s) = gl_blitMask s"
  "gl_framebufferMS (CreateRenderbufferMS a f s) = gl_framebufferMS s"
  "gl_renderbuffer (CreateRenderbufferMS a f s) = gl_renderbuffer s"
  by (simp_all add: CreateRenderbufferMS_def InitRenderbufferStorage_def Let_def)

lemma CreateRenderbuffersMS_loop_ok:
  assumes "\<forall>i\<in>set is. i < length fmts \<and> fmts ! i \<noteq> None"
  shows "\<exists>s'. CreateRenderbuffersMS_loop fmts is s = Inr s'
     \<and> gl_colorAttachments s' = gl_colorAttachments s \<and> gl_blitMask s' = gl_blitMask s"
  using assms
proof (induction "is" arbitrary: s)
  case Nil
  then show ?case by simp
next
  case (Cons i "is")
  from Cons.prems obtain f where f: "i < length fmts" "fmts ! i = Some f"
    by auto
  from Cons.prems have "\<forall>i\<in>set is. i < length fmts \<and> fmts ! i \<noteq> None"
    by simp
  from Cons.IH[OF this, of "CreateRenderbufferMS (gl_colorAttachments s ! i) f s"] f
  show ?case by simp
qed

lemma CreateFramebufferWithAttachments_colors:
  assumes valid: "\<forall>a\<in>set (desc_attachments desc). att_type a = Color \<and> (\<exists>t. att_texture a = Some t
             \<and> tex_InternalFormat t \<noteq> GL_DEPTH_COMPONENT \<and> tex_InternalFormat t \<noteq> GL_DEPTH_STENCIL
             \<and> env_mip_resolution_valid env t (att_mipLevel a))"
    and len: "length (desc_attachments desc) \<le> 32"
    and complete: "\<forall>cs. env_framebuffer_complete env cs"
    and fresh: "gl_colorAttachments s = []" "gl_blitMask s = 0" "gl_framebufferMS s = 0"
  shows "\<exists>s'. CreateFramebufferWithAttachments env desc s = Inr s'
     \<and> length (gl_colorAttachments s') = length (desc_attachments desc)
     \<and> gl_blitMask s' AND GL_DEPTH_BUFFER_BIT = 0
     \<and> gl_blitMask s' AND GL_STENCIL_BUFFER_BIT = 0"
proof -
  let ?as = "desc_attachments desc"
  let ?fmts0 = "replicate g_maxFramebufferAttachments (None :: GLenum option)"
  have textured: "\<forall>a\<in>set ?as. att_texture a \<noteq> None"
    using valid by auto
  have colors: "\<forall>a\<in>set ?as. \<exists>t. att_texture a = Some t
             \<and> tex_InternalFormat t \<noteq> GL_DEPTH_COMPONENT \<and> tex_InternalFormat t \<noteq> GL_DEPTH_STENCIL
             \<and> env_mip_resolution_valid env t (att_mipLevel a)"
    using valid by blast
  have "filter (\<lambda>a. att_type a = Color) ?as = ?as"
    using valid by (simp add: filter_id_conv)
  then have count: "\<And>t. CountColorAttachments ?as t = Inr (length ?as)"
    using len by (simp add: CountColorAttachments_eq g_maxFramebufferAttachments_def)
  have room: "0 + length ?as \<le> length ?fmts0"
    using len by (simp add: g_maxFramebufferAttachments_def)
  have val: "\<And>info t. ValidateFramebufferStatus env info t = Inr (emit glCheckFramebufferStatus t)"
    using complete by (simp add: ValidateFramebufferStatus_complete)
  show ?thesis
  proof (cases "HasMultiSampling s \<and> \<not> desc_customMultiSampling desc")
    case False
    let ?s2 = "emit (StateManager_BindFramebuffer FRAMEBUFFER (gl_framebuffer s)) s"
    from AttachAllTextures_loop_colors[OF colors room, of ?s2] obtain s4 fmts where
      run: "AttachAllTextures_loop env ?as 0 (?s2, ?fmts0) = Inr (s4, fmts)"
      and r: "length (gl_colorAttachments s4) = length (gl_colorAttachments ?s2) + length ?as"
        "gl_blitMask s4 AND GL_DEPTH_BUFFER_BIT = gl_blitMask ?s2 AND GL_DEPTH_BUFFER_BIT"
        "gl_blitMask s4 AND GL_STENCIL_BUFFER_BIT = gl_blitMask ?s2 AND GL_STENCIL_BUFFER_BIT"
        "gl_framebufferMS s4 = gl_framebufferMS ?s2"
      by (elim exE conjE) blast
    let ?s6 = "emit glCheckFramebufferStatus (SetDrawBuffers s4)"
    have s1: "(if HasMultiSampling s \<and> \<not> desc_customMultiSampling desc then GenFramebuffer_MS s else s) = s"
      using False by (rule if_not_P)
    have "CreateFramebufferWithAttachments env desc s = Inr ?s6"
      unfolding CreateFramebufferWithAttachments_def Let_def s1
      using fresh(3) r(4) run
      by (simp add: count val AttachAllDepthStencilBuffers_all_textured[OF textured]
          AttachAllTextures_def)
    moreover have "length (gl_colorAttachments ?s6) = length ?as"
      "gl_blitMask ?s6 AND GL_DEPTH_BUFFER_BIT = 0" "gl_blitMask ?s6 AND GL_STENCIL_BUFFER_BIT = 0"
      using r fresh by simp_all
    ultimately show ?thesis by blast
  next
    case True
    let ?s1 = "GenFramebuffer_MS s"
    let ?s2 = "emit (StateManager_BindFramebuffer FRAMEBUFFER (gl_framebuffer ?s1)) ?s1"
    have ms: "gl_framebufferMS ?s2 \<noteq> 0" "gl_colorAttachments ?s2 = []" "gl_blitMask ?s2 = 0"
      using fresh by (simp_all add: GenFramebuffer_MS_def)
    from AttachAllTextures_loop_colors[OF colors room, of ?s2] obtain s5 fmts where
      run: "AttachAllTextures_loop env ?as 0 (?s2, ?fmts0) = Inr (s5, fmts)"
      and r: "length (gl_colorAttachments s5) = length (gl_colorAttachments ?s2) + length ?as"
        "gl_blitMask s5 AND GL_DEPTH_BUFFER_BIT = gl_blitMask ?s2 AND GL_DEPTH_BUFFER_BIT"
        "gl_blitMask s5 AND GL_STENCIL_BUFFER_BIT = gl_blitMask ?s2 AND GL_STENCIL_BUFFER_BIT"
        "gl_framebufferMS s5 = gl_framebufferMS ?s2"
        "length fmts = length ?fmts0"
      and cells: "\<forall>j. 0 \<le> j \<and> j < 0 + length ?as \<longrightarrow> fmts ! j \<noteq> None"
      by (elim exE conjE) blast
    let ?s6 = "emit glCheckFramebufferStatus s5"
    let ?s7 = "emit (StateManager_BindFramebuffer FRAMEBUFFER (gl_framebufferMS ?s6)) ?s6"
    have n7: "length (gl_colorAttachments ?s7) = length ?as"
      using r(1) ms(2) by simp
    have "\<forall>i\<in>set [0..<length (gl_colorAttachments ?s7)]. i < length fmts \<and> fmts ! i \<noteq> None"
      using cells r(5) len n7 by (simp add: g_maxFramebufferAttachments_def)
    from CreateRenderbuffersMS_loop_ok[OF this, of ?s7] obtain s8 where
      loop: "CreateRenderbuffersMS_loop fmts [0..<length (gl_colorAttachments ?s7)] ?s7 = Inr s8"
      and s8: "gl_colorAttachments s8 = gl_colorAttachments ?s7" "gl_blitMask s8 = gl_blitMask ?s7"
      by (elim exE conjE) blast
    let ?s9 = "emit glCheckFramebufferStatus (SetDrawBuffers s8)"
    have ms6: "gl_framebufferMS ?s6 \<noteq> 0"
      using r(4) ms(1) by simp
    have "CreateRenderbuffersMS env fmts ?s7 = Inr ?s9"
      unfolding CreateRenderbuffersMS_def using loop by (simp add: val)
    moreover have s1: "(if HasMultiSampling s \<and> \<not> desc_customMultiSampling desc then GenFramebuffer_MS s else s)
        = GenFramebuffer_MS s"
      using True by (rule if_P)
    ultimately have "CreateFramebufferWithAttachments env desc s = Inr ?s9"
      unfolding CreateFramebufferWithAttachments_def Let_def s1
      using ms(1) ms6 run
      by (simp add: count val AttachAllDepthStencilBuffers_all_textured[OF textured]
          AttachAllTextures_def)
    moreover have "length (gl_colorAttachments ?s9) = length ?as"
      "gl_blitMask ?s9 AND GL_DEPTH_BUFFER_BIT = 0" "gl_blitMask ?s9 AND GL_STENCIL_BUFFER_BIT = 0"
      using s8 n7 r(2,3) ms(3) by simp_all
    ultimately show ?thesis by blast
  qed
qed


text \<open>
  Claim C4: for every valid descriptor with \<open>k\<close> colour attachments, \<open>k\<close> from 0 to 32, and
  no depth or stencil attachment, the constructor returns a render target that reports \<open>k\<close>
  colour attachments, no depth attachment and no stencil attachment. A valid colour attachment
  is of kind \<open>Color\<close> and has a texture with a colour format (the code takes the class of a
  textured attachment from the texture's internal format) whose MIP level passes the
  resolution check; the driver reports the framebuffers complete. The statement covers the
  single-sample and the multi-sample construction and the descriptor without attachments.
\<close>

theorem color_only_target_reports:
  assumes valid: "\<forall>a\<in>set (desc_attachments desc). att_type a = Color \<and> (\<exists>t. att_texture a = Some t
             \<and> tex_InternalFormat t \<noteq> GL_DEPTH_COMPONENT \<and> tex_InternalFormat t \<noteq> GL_DEPTH_STENCIL
             \<and> env_mip_resolution_valid env t (att_mipLevel a))"
    and k: "length (desc_attachments desc) = k" "k \<le> 32"
    and complete: "\<forall>cs. env_framebuffer_complete env cs"
  shows "\<exists>s. GLRenderTarget_ctor env names calls desc = Inr s
     \<and> unat (GetNumColorAttachments s) = k
     \<and> \<not> HasDepthAttachment s \<and> \<not> HasStencilAttachment s"
proof -
  let ?s0 = "\<lparr> gl_resolution = desc_resolution desc,
                 gl_multiSamples = sint (desc_sampleCount desc),
                 gl_framebuffer = 0, gl_framebufferMS = 0, gl_renderbuffer = 0,
                 gl_renderbuffersMS = [], gl_colorAttachments = [], gl_blitMask = 0,
                 gl_names = names, gl_calls = calls \<rparr>"
  let ?s1 = "GenFramebuffer_primary ?s0"
  have fresh: "gl_colorAttachments ?s1 = []" "gl_blitMask ?s1 = 0" "gl_framebufferMS ?s1 = 0"
    by (simp_all add: GenFramebuffer_primary_def)
  have "\<exists>s. (if desc_attachments desc = [] then CreateFramebufferWithNoAttachments env desc ?s1
              else CreateFramebufferWithAttachments env desc ?s1) = Inr s
     \<and> length (gl_colorAttachments s) = k
     \<and> gl_blitMask s AND GL_DEPTH_BUFFER_BIT = 0 \<and> gl_blitMask s AND GL_STENCIL_BUFFER_BIT = 0"
  proof (cases "desc_attachments desc = []")
    case True
    then show ?thesis
      using k(1) complete fresh
      by (simp add: CreateFramebufferWithNoAttachments_def ValidateFramebufferStatus_complete
          GenRenderbuffer_member_def Let_def)
  next
    case False
    from CreateFramebufferWithAttachments_colors[OF valid _ complete fresh] k
    show ?thesis using False by simp
  qed
  then obtain s where run: "GLRenderTarget_ctor env names calls desc = Inr s"
    and n: "length (gl_colorAttachments s) = k"
    and m: "gl_blitMask s AND GL_DEPTH_BUFFER_BIT = 0" "gl_blitMask s AND GL_STENCIL_BUFFER_BIT = 0"
    unfolding GLRenderTarget_ctor_def Let_def by (elim exE conjE) blast
  have "unat (word_of_nat k :: u32) = k"
    using k(2) by (simp add: unat_u32_of_nat)
  then have "unat (GetNumColorAttachments s) = k"
    using n by (simp add: GetNumColorAttachments_def)
  then show ?thesis
    using run m by (simp add: HasDepthAttachment_def HasStencilAttachment_def)
qed

theorem color_only_target_reports_witness:
  "(\<exists>s. GLRenderTarget_ctor env_ok 0 [] (descriptor (color_attachments 3) 4) = Inr s
      \<and> unat (GetNumColorAttachments s) = 3
      \<and> \<not> HasDepthAttachment s \<and> \<not> HasStencilAttachment s)
   \<and> (\<exists>s. GLRenderTarget_ctor env_ok 0 [] (descriptor [] 1) = Inr s
      \<and> unat (GetNumColorAttachments s) = 0
      \<and> \<not> HasDepthAttachment s \<and> \<not> HasStencilAttachment s)"
proof -
  have v: "\<forall>a\<in>set (desc_attachments (descriptor (color_attachments 3) 4)). att_type a = Color
      \<and> (\<exists>t. att_texture a = Some t
             \<and> tex_InternalFormat t \<noteq> GL_DEPTH_COMPONENT \<and> tex_InternalFormat t \<noteq> GL_DEPTH_STENCIL
             \<and> env_mip_resolution_valid env_ok t (att_mipLevel a))"
    by (simp add: descriptor_def color_attachments_def attachment_def color_texture_def env_ok_def
        GL_RGBA_def GL_DEPTH_COMPONENT_def GL_DEPTH_STENCIL_def)
  have l: "length (desc_attachments (descriptor (color_attachments 3) 4)) = 3" "(3::nat) \<le> 32"
    by (simp_all add: descriptor_def color_attachments_def)
  have v0: "\<forall>a\<in>set (desc_attachments (descriptor [] 1)). att_type a = Color
      \<and> (\<exists>t. att_texture a = Some t
             \<and> tex_InternalFormat t \<noteq> GL_DEPTH_COMPONENT \<and> tex_InternalFormat t \<noteq> GL_DEPTH_STENCIL
             \<and> env_mip_resolution_valid env_ok t (att_mipLevel a))"
    by (simp add: descriptor_def)
  have l0: "length (desc_attachments (descriptor [] 1)) = 0" "(0::nat) \<le> 32"
    by (simp_all add: descriptor_def)
  have c: "\<forall>cs. env_framebuffer_complete env_ok cs"
    by (simp add: env_ok_def)
  show ?thesis
    using color_only_target_reports[OF v l c, of 0 "[]"] color_only_target_reports[OF v0 l0 c, of 0 "[]"]
    by (intro conjI)
qed

subsection \<open>Depth and stencil renderbuffers\<close>

lemma first_buffer_attached:
  assumes "att_texture a = None" and "att_type a \<noteq> Color" and "gl_renderbuffer s = 0"
  shows "\<exists>s1. AttachAllDepthStencilBuffers [a] s = Inr s1
     \<and> gl_renderbuffer s1 = Suc (gl_names s) \<and> gl_names s1 = Suc (gl_names s)
     \<and> gl_blitMask s1 = gl_blitMask s OR buffer_bits (att_type a)
     \<and> gl_colorAttachments s1 = gl_colorAttachments s"
  using assms
  by (cases "att_type a")
    (simp_all add: AttachDepthBuffer_def AttachStencilBuffer_def AttachDepthStencilBuffer_def
      CreateAndAttachRenderbuffer_def GenRenderbuffer_member_def InitRenderbufferStorage_def
      buffer_bits_def Let_def)

lemma AttachAllDepthStencilBuffers_Cons_buffer:
  assumes "att_texture a = None" and "AttachAllDepthStencilBuffers [a] s = Inr s1"
  shows "AttachAllDepthStencilBuffers (a # as) s = AttachAllDepthStencilBuffers as s1"
  using assms by (auto split: sum.splits)

lemma second_buffer_rejected:
  assumes "gl_renderbuffer s \<noteq> 0"
    and "filter (\<lambda>a. att_texture a = None) as = b # rest" and "att_type b \<noteq> Color"
  shows "AttachAllDepthStencilBuffers as s = Inl (DepthAttachmentFailed, s)"
  using assms(2)
proof (induction as)
  case Nil
  then show ?case by simp
next
  case (Cons a as)
  show ?case
  proof (cases "att_texture a = None")
    case True
    with Cons.prems have "a = b" by simp
    with True assms(1,3) show ?thesis
      by (cases "att_type b")
        (simp_all add: AttachDepthBuffer_def AttachStencilBuffer_def AttachDepthStencilBuffer_def
          CreateAndAttachRenderbuffer_def ErrDepthAttachmentFailed_def)
  next
    case False
    with Cons show ?thesis by auto
  qed
qed

lemma duplicate_buffer_rejected:
  assumes "gl_renderbuffer s = 0"
    and "filter (\<lambda>a. att_texture a = None) as = b1 # b2 # rest"
    and "att_type b1 \<noteq> Color" and "att_type b2 \<noteq> Color"
  shows "\<exists>s1. AttachAllDepthStencilBuffers [b1] s = Inr s1
     \<and> AttachAllDepthStencilBuffers as s = Inl (DepthAttachmentFailed, s1)"
  using assms(2)
proof (induction as)
  case Nil
  then show ?case by simp
next
  case (Cons a as)
  show ?case
  proof (cases "att_texture a = None")
    case True
    with Cons.prems have a: "a = b1" and tail: "filter (\<lambda>a. att_texture a = None) as = b2 # rest"
      by simp_all
    have c: "att_type a \<noteq> Color"
      using a assms(3) by simp
    from first_buffer_attached[OF True c assms(1)] obtain s1 where
      s1: "AttachAllDepthStencilBuffers [b1] s = Inr s1" "gl_renderbuffer s1 = Suc (gl_names s)"
      unfolding a by (elim exE conjE) blast
    have "AttachAllDepthStencilBuffers (a # as) s = AttachAllDepthStencilBuffers as s1"
      using AttachAllDepthStencilBuffers_Cons_buffer[OF True, of s s1 as] s1(1) a by simp
    moreover have "AttachAllDepthStencilBuffers as s1 = Inl (DepthAttachmentFailed, s1)"
      by (rule second_buffer_rejected[OF _ tail assms(4)]) (simp add: s1(2))
    ultimately show ?thesis using s1(1) by simp
  next
    case False
    with Cons show ?thesis by auto
  qed
qed

lemma buffers_never_all_attach:
  assumes "(gl_renderbuffer s \<noteq> 0 \<and> 1 \<le> length (filter (\<lambda>a. att_texture a = None \<and> att_type a \<noteq> Color) as))
           \<or> 2 \<le> length (filter (\<lambda>a. att_texture a = None \<and> att_type a \<noteq> Color) as)"
  shows "AttachAllDepthStencilBuffers as s \<noteq> Inr s'"
  using assms
proof (induction as arbitrary: s)
  case Nil
  then show ?case by simp
next
  case (Cons a as)
  show ?case
  proof (cases "att_texture a = None")
    case False
    with Cons.prems have "(gl_renderbuffer s \<noteq> 0 \<and> 1 \<le> length (filter (\<lambda>a. att_texture a = None \<and> att_type a \<noteq> Color) as))
           \<or> 2 \<le> length (filter (\<lambda>a. att_texture a = None \<and> att_type a \<noteq> Color) as)"
      by simp
    from Cons.IH[OF this] False show ?thesis by auto
  next
    case True
    show ?thesis
    proof (cases "att_type a = Color")
      case c: True
      with True show ?thesis by simp
    next
      case c: False
      show ?thesis
      proof (cases "gl_renderbuffer s = 0")
        case r: False
        have "AttachAllDepthStencilBuffers (a # as) s = Inl (DepthAttachmentFailed, s)"
          by (rule second_buffer_rejected[OF r, of _ a "filter (\<lambda>a. att_texture a = None) as"])
            (simp_all add: True c)
        then show ?thesis by simp
      next
        case r: True
        from first_buffer_attached[OF True c r] obtain s1 where
          s1: "AttachAllDepthStencilBuffers [a] s = Inr s1" "gl_renderbuffer s1 = Suc (gl_names s)"
          by (elim exE conjE) blast
        from Cons.prems r True c
        have "1 \<le> length (filter (\<lambda>a. att_texture a = None \<and> att_type a \<noteq> Color) as)"
          by simp
        then have "(gl_renderbuffer s1 \<noteq> 0 \<and> 1 \<le> length (filter (\<lambda>a. att_texture a = None \<and> att_type a \<noteq> Color) as))
           \<or> 2 \<le> length (filter (\<lambda>a. att_texture a = None \<and> att_type a \<noteq> Color) as)"
          using s1(2) by simp
        from Cons.IH[OF this] AttachAllDepthStencilBuffers_Cons_buffer[OF True s1(1), of as]
        show ?thesis by simp
      qed
    qed
  qed
qed

lemma AttachTexture_keeps:
  assumes "AttachTexture env t a i (s, f) = Inr (s', f')"
  shows "gl_framebufferMS s' = gl_framebufferMS s \<and> gl_renderbuffer s' = gl_renderbuffer s
     \<and> gl_names s' = gl_names s"
  using assms
  by (auto simp: AttachTexture_def GetTexInternalFormat_def MakeFramebufferAttachment_def
      ErrDepthAttachmentFailed_def Let_def split: if_splits sum.splits prod.splits)

lemma AttachAllTextures_loop_keeps:
  assumes "AttachAllTextures_loop env as i (s, f) = Inr (s', f')"
  shows "gl_framebufferMS s' = gl_framebufferMS s \<and> gl_renderbuffer s' = gl_renderbuffer s
     \<and> gl_names s' = gl_names s"
  using assms
proof (induction as arbitrary: i s f)
  case Nil
  then show ?case by simp
next
  case (Cons a as)
  show ?case
  proof (cases "att_texture a")
    case None
    with Cons show ?thesis by simp
  next
    case (Some t)
    with Cons.prems obtain s1 f1 where
      step: "AttachTexture env t a i (s, f) = Inr (s1, f1)"
      and run: "AttachAllTextures_loop env as (i + 1) (s1, f1) = Inr (s', f')"
      by (auto split: sum.splits)
    from Cons.IH[OF run] AttachTexture_keeps[OF step] show ?thesis
      by simp
  qed
qed

lemma AttachAllTextures_loop_valid:
  assumes "\<forall>a\<in>set as. \<forall>t. att_texture a = Some t \<longrightarrow>
             tex_InternalFormat t \<noteq> GL_DEPTH_COMPONENT \<and> tex_InternalFormat t \<noteq> GL_DEPTH_STENCIL
             \<and> env_mip_resolution_valid env t (att_mipLevel a)"
    and "i + length (filter (\<lambda>a. att_texture a \<noteq> None) as) \<le> length fmts"
  shows "\<exists>s' fmts'. AttachAllTextures_loop env as i (s, fmts) = Inr (s', fmts')
     \<and> gl_blitMask s' AND GL_DEPTH_BUFFER_BIT = gl_blitMask s AND GL_DEPTH_BUFFER_BIT
     \<and> gl_blitMask s' AND GL_STENCIL_BUFFER_BIT = gl_blitMask s AND GL_STENCIL_BUFFER_BIT"
  using assms
proof (induction as arbitrary: i s fmts)
  case Nil
  then show ?case by simp
next
  case (Cons a as)
  have rest: "\<forall>a\<in>set as. \<forall>t. att_texture a = Some t \<longrightarrow>
             tex_InternalFormat t \<noteq> GL_DEPTH_COMPONENT \<and> tex_InternalFormat t \<noteq> GL_DEPTH_STENCIL
             \<and> env_mip_resolution_valid env t (att_mipLevel a)"
    using Cons.prems(1) by simp
  show ?case
  proof (cases "att_texture a")
    case None
    with Cons.prems(2) have "i + length (filter (\<lambda>a. att_texture a \<noteq> None) as) \<le> length fmts"
      by simp
    from Cons.IH[OF rest this, of s] None show ?thesis by simp
  next
    case (Some t)
    with Cons.prems(1) have t: "tex_InternalFormat t \<noteq> GL_DEPTH_COMPONENT"
      "tex_InternalFormat t \<noteq> GL_DEPTH_STENCIL" "env_mip_resolution_valid env t (att_mipLevel a)"
      by simp_all
    from Some Cons.prems(2) have i: "i < length fmts"
      by simp
    let ?fmts1 = "fmts[i := Some (tex_InternalFormat t)]"
    from AttachTexture_color[OF t(3) t(1) t(2) i, of s] obtain s1 where
      step: "AttachTexture env t a i (s, fmts) = Inr (s1, ?fmts1)"
      and s1: "gl_blitMask s1 = gl_blitMask s OR GL_COLOR_BUFFER_BIT"
      by (elim exE conjE) blast
    from Some Cons.prems(2)
    have room: "(i + 1) + length (filter (\<lambda>a. att_texture a \<noteq> None) as) \<le> length ?fmts1"
      by simp
    from Cons.IH[OF rest room, of s1] obtain s' fmts' where
      run: "AttachAllTextures_loop env as (i + 1) (s1, ?fmts1) = Inr (s', fmts')"
      and r: "gl_blitMask s' AND GL_DEPTH_BUFFER_BIT = gl_blitMask s1 AND GL_DEPTH_BUFFER_BIT"
        "gl_blitMask s' AND GL_STENCIL_BUFFER_BIT = gl_blitMask s1 AND GL_STENCIL_BUFFER_BIT"
      by (elim exE conjE) blast
    have "AttachAllTextures_loop env (a # as) i (s, fmts) = Inr (s', fmts')"
      using Some step run by simp
    then show ?thesis
      using r s1 by (simp add: color_bit_keeps_depth_stencil)
  qed
qed

lemma ValidateFramebufferStatus_keeps:
  assumes "ValidateFramebufferStatus env info s = Inr s'"
  shows "s' = emit glCheckFramebufferStatus s"
  using assms by (auto simp: ValidateFramebufferStatus_def Let_def split: if_splits)

lemma CreateFramebufferWithAttachments_two_buffers_fail:
  assumes two: "2 \<le> length (filter (\<lambda>a. att_texture a = None \<and> att_type a \<noteq> Color) (desc_attachments desc))"
    and ms0: "gl_framebufferMS s = 0"
  shows "CreateFramebufferWithAttachments env desc s \<noteq> Inr s'"
proof
  assume ok: "CreateFramebufferWithAttachments env desc s = Inr s'"
  let ?as = "desc_attachments desc"
  let ?fmts0 = "replicate g_maxFramebufferAttachments (None :: GLenum option)"
  have never: "\<And>t t'. AttachAllDepthStencilBuffers ?as t \<noteq> Inr t'"
    using two by (intro buffers_never_all_attach) simp
  show False
  proof (cases "HasMultiSampling s \<and> \<not> desc_customMultiSampling desc")
    case False
    then have s1: "(if HasMultiSampling s \<and> \<not> desc_customMultiSampling desc then GenFramebuffer_MS s else s) = s"
      by (rule if_not_P)
    let ?s2 = "emit (StateManager_BindFramebuffer FRAMEBUFFER (gl_framebuffer s)) s"
    obtain e where "AttachAllDepthStencilBuffers ?as ?s2 = Inl e"
      using never[of ?s2] by (cases "AttachAllDepthStencilBuffers ?as ?s2") auto
    with ok ms0 show False
      unfolding CreateFramebufferWithAttachments_def Let_def s1
      by (simp split: sum.splits)
  next
    case True
    then have s1: "(if HasMultiSampling s \<and> \<not> desc_customMultiSampling desc then GenFramebuffer_MS s else s)
        = GenFramebuffer_MS s"
      by (rule if_P)
    let ?s1 = "GenFramebuffer_MS s"
    let ?s2 = "emit (StateManager_BindFramebuffer FRAMEBUFFER (gl_framebuffer ?s1)) ?s1"
    have ms: "gl_framebufferMS ?s2 \<noteq> 0"
      by (simp add: GenFramebuffer_MS_def)
    from ok ms obtain n s5 fmts s6 where
      tex: "AttachAllTextures_loop env ?as 0 (?s2, ?fmts0) = Inr (s5, fmts)"
      and val: "ValidateFramebufferStatus env ''color attachment to framebuffer object (FBO) failed'' s5 = Inr s6"
      and fin: "(if gl_framebufferMS s6 \<noteq> 0 then
                   (case AttachAllDepthStencilBuffers ?as
                           (emit (StateManager_BindFramebuffer FRAMEBUFFER (gl_framebufferMS s6)) s6) of
                      Inl e \<Rightarrow> Inl e
                    | Inr s8 \<Rightarrow> CreateRenderbuffersMS env fmts s8)
                 else Inr s6) = Inr s'"
      unfolding CreateFramebufferWithAttachments_def Let_def s1 AttachAllTextures_def
      by (simp split: sum.splits prod.splits)
    have "gl_framebufferMS s6 \<noteq> 0"
      using AttachAllTextures_loop_keeps[OF tex] ValidateFramebufferStatus_keeps[OF val] ms by simp
    with fin never show False
      by (simp split: sum.splits)
  qed
qed


lemma buffer_bits_on_clean_mask:
  assumes "m AND GL_DEPTH_BUFFER_BIT = 0" and "m AND GL_STENCIL_BUFFER_BIT = 0" and "kind \<noteq> Color"
  shows "((m OR buffer_bits kind) AND GL_DEPTH_BUFFER_BIT \<noteq> 0) = (kind = Depth \<or> kind = DepthStencil)"
    and "((m OR buffer_bits kind) AND GL_STENCIL_BUFFER_BIT \<noteq> 0) = (kind = Stencil \<or> kind = DepthStencil)"
  using assms
  by (cases kind; simp add: buffer_bits_def bit.conj_disj_distrib2
      GL_DEPTH_BUFFER_BIT_def GL_STENCIL_BUFFER_BIT_def)+

lemma CreateFramebufferWithAttachments_duplicate_depth:
  assumes bufs: "filter (\<lambda>a. att_texture a = None) (desc_attachments desc) = b1 # b2 # rest"
    and kinds: "att_type b1 \<noteq> Color" "att_type b2 \<noteq> Color"
    and few: "length (filter (\<lambda>a. att_type a = Color) (desc_attachments desc)) \<le> 32"
    and ms_ok: "HasMultiSampling s \<and> \<not> desc_customMultiSampling desc \<longrightarrow>
        (\<forall>a\<in>set (desc_attachments desc). \<forall>t. att_texture a = Some t \<longrightarrow>
             tex_InternalFormat t \<noteq> GL_DEPTH_COMPONENT \<and> tex_InternalFormat t \<noteq> GL_DEPTH_STENCIL
             \<and> env_mip_resolution_valid env t (att_mipLevel a))
        \<and> length (filter (\<lambda>a. att_texture a \<noteq> None) (desc_attachments desc)) \<le> 32
        \<and> (\<forall>cs. env_framebuffer_complete env cs)"
    and fresh: "gl_framebufferMS s = 0" "gl_renderbuffer s = 0" "gl_blitMask s = 0"
  shows "\<exists>s'. CreateFramebufferWithAttachments env desc s = Inl (DepthAttachmentFailed, s')
     \<and> gl_renderbuffer s' \<noteq> 0 \<and> gl_names s' = gl_renderbuffer s'
     \<and> HasDepthAttachment s' = (att_type b1 = Depth \<or> att_type b1 = DepthStencil)
     \<and> HasStencilAttachment s' = (att_type b1 = Stencil \<or> att_type b1 = DepthStencil)"
proof -
  let ?as = "desc_attachments desc"
  let ?fmts0 = "replicate g_maxFramebufferAttachments (None :: GLenum option)"
  have "b1 \<in> set (filter (\<lambda>a. att_texture a = None) ?as)"
    unfolding bufs by simp
  then have b1: "att_texture b1 = None"
    by simp
  have count: "\<And>t. CountColorAttachments ?as t = Inr (length (filter (\<lambda>a. att_type a = Color) ?as))"
    using few by (simp add: CountColorAttachments_eq g_maxFramebufferAttachments_def)
  have at_throw: "\<exists>s'. AttachAllDepthStencilBuffers ?as t = Inl (DepthAttachmentFailed, s')
     \<and> gl_renderbuffer s' \<noteq> 0 \<and> gl_names s' = gl_renderbuffer s'
     \<and> HasDepthAttachment s' = (att_type b1 = Depth \<or> att_type b1 = DepthStencil)
     \<and> HasStencilAttachment s' = (att_type b1 = Stencil \<or> att_type b1 = DepthStencil)"
    if t: "gl_renderbuffer t = 0" "gl_blitMask t AND GL_DEPTH_BUFFER_BIT = 0"
      "gl_blitMask t AND GL_STENCIL_BUFFER_BIT = 0" for t
  proof -
    from duplicate_buffer_rejected[OF t(1) bufs kinds] obtain s1 where
      one: "AttachAllDepthStencilBuffers [b1] t = Inr s1"
      and all: "AttachAllDepthStencilBuffers ?as t = Inl (DepthAttachmentFailed, s1)"
      by (elim exE conjE) blast
    from first_buffer_attached[OF b1 kinds(1) t(1)] one
    have s1: "gl_renderbuffer s1 = Suc (gl_names t)" "gl_names s1 = Suc (gl_names t)"
      "gl_blitMask s1 = gl_blitMask t OR buffer_bits (att_type b1)"
      by simp_all
    show ?thesis
      using all s1 buffer_bits_on_clean_mask[OF t(2) t(3) kinds(1)]
      by (simp add: HasDepthAttachment_def HasStencilAttachment_def)
  qed
  show ?thesis
  proof (cases "HasMultiSampling s \<and> \<not> desc_customMultiSampling desc")
    case False
    then have s1: "(if HasMultiSampling s \<and> \<not> desc_customMultiSampling desc then GenFramebuffer_MS s else s) = s"
      by (rule if_not_P)
    let ?s2 = "emit (StateManager_BindFramebuffer FRAMEBUFFER (gl_framebuffer s)) s"
    have s2: "gl_renderbuffer ?s2 = 0" "gl_blitMask ?s2 AND GL_DEPTH_BUFFER_BIT = 0"
      "gl_blitMask ?s2 AND GL_STENCIL_BUFFER_BIT = 0"
      using fresh by simp_all
    from at_throw[OF s2] obtain s' where
      thrown: "AttachAllDepthStencilBuffers ?as ?s2 = Inl (DepthAttachmentFailed, s')"
      and s': "gl_renderbuffer s' \<noteq> 0" "gl_names s' = gl_renderbuffer s'"
        "HasDepthAttachment s' = (att_type b1 = Depth \<or> att_type b1 = DepthStencil)"
        "HasStencilAttachment s' = (att_type b1 = Stencil \<or> att_type b1 = DepthStencil)"
      by (elim exE conjE) blast
    have "CreateFramebufferWithAttachments env desc s = Inl (DepthAttachmentFailed, s')"
      unfolding CreateFramebufferWithAttachments_def Let_def s1
      using thrown fresh(1) by (simp add: count)
    with s' show ?thesis
      by (intro exI[of _ s']) simp
  next
    case True
    then have s1: "(if HasMultiSampling s \<and> \<not> desc_customMultiSampling desc then GenFramebuffer_MS s else s)
        = GenFramebuffer_MS s"
      by (rule if_P)
    from True ms_ok have valid: "\<forall>a\<in>set ?as. \<forall>t. att_texture a = Some t \<longrightarrow>
             tex_InternalFormat t \<noteq> GL_DEPTH_COMPONENT \<and> tex_InternalFormat t \<noteq> GL_DEPTH_STENCIL
             \<and> env_mip_resolution_valid env t (att_mipLevel a)"
      and n: "length (filter (\<lambda>a. att_texture a \<noteq> None) ?as) \<le> 32"
      and complete: "\<forall>cs. env_framebuffer_complete env cs"
      by simp_all
    let ?s1 = "GenFramebuffer_MS s"
    let ?s2 = "emit (StateManager_BindFramebuffer FRAMEBUFFER (gl_framebuffer ?s1)) ?s1"
    have s2: "gl_framebufferMS ?s2 \<noteq> 0" "gl_renderbuffer ?s2 = 0" "gl_blitMask ?s2 = 0"
      using fresh by (simp_all add: GenFramebuffer_MS_def)
    have room: "0 + length (filter (\<lambda>a. att_texture a \<noteq> None) ?as) \<le> length ?fmts0"
      using n by (simp add: g_maxFramebufferAttachments_def)
    from AttachAllTextures_loop_valid[OF valid room, of ?s2] obtain s5 fmts where
      tex: "AttachAllTextures_loop env ?as 0 (?s2, ?fmts0) = Inr (s5, fmts)"
      and bits: "gl_blitMask s5 AND GL_DEPTH_BUFFER_BIT = gl_blitMask ?s2 AND GL_DEPTH_BUFFER_BIT"
        "gl_blitMask s5 AND GL_STENCIL_BUFFER_BIT = gl_blitMask ?s2 AND GL_STENCIL_BUFFER_BIT"
      by (elim exE conjE) blast
    note keep = AttachAllTextures_loop_keeps[OF tex]
    let ?s6 = "emit glCheckFramebufferStatus s5"
    let ?s7 = "emit (StateManager_BindFramebuffer FRAMEBUFFER (gl_framebufferMS ?s6)) ?s6"
    have val: "\<And>info t. ValidateFramebufferStatus env info t = Inr (emit glCheckFramebufferStatus t)"
      using complete by (simp add: ValidateFramebufferStatus_complete)
    have s7: "gl_renderbuffer ?s7 = 0" "gl_blitMask ?s7 AND GL_DEPTH_BUFFER_BIT = 0"
      "gl_blitMask ?s7 AND GL_STENCIL_BUFFER_BIT = 0"
      using keep bits s2 by simp_all
    from at_throw[OF s7] obtain s' where
      thrown: "AttachAllDepthStencilBuffers ?as ?s7 = Inl (DepthAttachmentFailed, s')"
      and s': "gl_renderbuffer s' \<noteq> 0" "gl_names s' = gl_renderbuffer s'"
        "HasDepthAttachment s' = (att_type b1 = Depth \<or> att_type b1 = DepthStencil)"
        "HasStencilAttachment s' = (att_type b1 = Stencil \<or> att_type b1 = DepthStencil)"
      by (elim exE conjE) blast
    have ms6: "gl_framebufferMS ?s6 \<noteq> 0"
      using keep s2(1) by simp
    have "CreateFramebufferWithAttachments env desc s = Inl (DepthAttachmentFailed, s')"
      unfolding CreateFramebufferWithAttachments_def Let_def s1
      using thrown tex s2(1) ms6 by (simp add: count val AttachAllTextures_def)
    with s' show ?thesis
      by (intro exI[of _ s']) simp
  qed
qed


text \<open>
  With two or more depth-or-stencil attachments without texture the constructor never
  returns a render target, whatever else the descriptor holds.
\<close>

lemma two_depth_buffers_never_bind:
  assumes "2 \<le> length (filter (\<lambda>a. att_texture a = None \<and> att_type a \<noteq> Color) (desc_attachments desc))"
  shows "GLRenderTarget_ctor env names calls desc \<noteq> Inr s"
proof -
  from assms have ne: "desc_attachments desc \<noteq> []"
    by auto
  show ?thesis
    unfolding GLRenderTarget_ctor_def Let_def
    using ne CreateFramebufferWithAttachments_two_buffers_fail[OF assms]
    by (simp add: GenFramebuffer_primary_def)
qed

text \<open>
  The error reported is the one of the first check that fails. The descriptor below has a
  depth and a depth-stencil attachment and, between them, a colour attachment without texture:
  the depth renderbuffer is created, then the colour attachment raises the invalid-argument
  error, and the depth-stencil attachment is never reached.
\<close>

lemma colour_buffer_error_comes_first:
  "length (filter (\<lambda>a. att_type a \<noteq> Color) (desc_attachments two_depth_one_color_buffer)) = 2
   \<and> length (filter (\<lambda>a. att_type a = Color) (desc_attachments two_depth_one_color_buffer)) = 1
   \<and> error_of (GLRenderTarget_ctor env_ok 0 [] two_depth_one_color_buffer)
       = Some ColorAttachmentWithoutTexture"
  by code_simp

text \<open>
  Two renderbuffer attachments. If the first two attachments without texture are of kind
  \<open>Depth\<close>, \<open>Stencil\<close> or \<open>DepthStencil\<close>, and the checks made before they are reached
  pass (at most 32 colour-kind attachments; with a secondary multi-sample framebuffer also: the
  textures attach, to colour slots, and the primary framebuffer is complete), the constructor
  fails with the duplicate-depth-attachment error at the second of them. At the throw the
  renderbuffer of the first exists and is the last GL object generated, and the depth and
  stencil flags are those of the first attachment alone.
\<close>

lemma duplicate_renderbuffer_rejected:
  assumes bufs: "filter (\<lambda>a. att_texture a = None) (desc_attachments desc) = b1 # b2 # rest"
    and kinds: "att_type b1 \<noteq> Color" "att_type b2 \<noteq> Color"
    and few: "length (filter (\<lambda>a. att_type a = Color) (desc_attachments desc)) \<le> 32"
    and ms_ok: "1 < sint (desc_sampleCount desc) \<and> \<not> desc_customMultiSampling desc \<longrightarrow>
        (\<forall>a\<in>set (desc_attachments desc). \<forall>t. att_texture a = Some t \<longrightarrow>
             tex_InternalFormat t \<noteq> GL_DEPTH_COMPONENT \<and> tex_InternalFormat t \<noteq> GL_DEPTH_STENCIL
             \<and> env_mip_resolution_valid env t (att_mipLevel a))
        \<and> length (filter (\<lambda>a. att_texture a \<noteq> None) (desc_attachments desc)) \<le> 32
        \<and> (\<forall>cs. env_framebuffer_complete env cs)"
  shows "\<exists>s'. GLRenderTarget_ctor env names calls desc = Inl (DepthAttachmentFailed, s')
     \<and> gl_renderbuffer s' \<noteq> 0 \<and> gl_names s' = gl_renderbuffer s'
     \<and> HasDepthAttachment s' = (att_type b1 = Depth \<or> att_type b1 = DepthStencil)
     \<and> HasStencilAttachment s' = (att_type b1 = Stencil \<or> att_type b1 = DepthStencil)"
proof -
  let ?s0 = "\<lparr> gl_resolution = desc_resolution desc,
                 gl_multiSamples = sint (desc_sampleCount desc),
                 gl_framebuffer = 0, gl_framebufferMS = 0, gl_renderbuffer = 0,
                 gl_renderbuffersMS = [], gl_colorAttachments = [], gl_blitMask = 0,
                 gl_names = names, gl_calls = calls \<rparr>"
  let ?s1 = "GenFramebuffer_primary ?s0"
  have fresh: "gl_framebufferMS ?s1 = 0" "gl_renderbuffer ?s1 = 0" "gl_blitMask ?s1 = 0"
    by (simp_all add: GenFramebuffer_primary_def)
  have ms: "HasMultiSampling ?s1 = (1 < sint (desc_sampleCount desc))"
    by (simp add: HasMultiSampling_def GenFramebuffer_primary_def)
  have ms_ok': "HasMultiSampling ?s1 \<and> \<not> desc_customMultiSampling desc \<longrightarrow>
        (\<forall>a\<in>set (desc_attachments desc). \<forall>t. att_texture a = Some t \<longrightarrow>
             tex_InternalFormat t \<noteq> GL_DEPTH_COMPONENT \<and> tex_InternalFormat t \<noteq> GL_DEPTH_STENCIL
             \<and> env_mip_resolution_valid env t (att_mipLevel a))
        \<and> length (filter (\<lambda>a. att_texture a \<noteq> None) (desc_attachments desc)) \<le> 32
        \<and> (\<forall>cs. env_framebuffer_complete env cs)"
    unfolding ms by (rule ms_ok)
  have ne: "desc_attachments desc \<noteq> []"
    using bufs by auto
  from CreateFramebufferWithAttachments_duplicate_depth[OF bufs kinds few ms_ok' fresh]
  show ?thesis
    unfolding GLRenderTarget_ctor_def Let_def using ne by simp
qed

lemma depth_and_depth_stencil_buffers:
  "filter (\<lambda>a. att_texture a = None) (desc_attachments (depth_and_depth_stencil n))
     = [attachment Depth None, attachment DepthStencil None]"
  "length (filter (\<lambda>a. att_type a = Color) (desc_attachments (depth_and_depth_stencil n))) = 2"
  "length (filter (\<lambda>a. att_texture a \<noteq> None) (desc_attachments (depth_and_depth_stencil n))) = 2"
  by (simp_all add: depth_and_depth_stencil_def descriptor_def color_attachments_def attachment_def
      upt_0_2)

lemma duplicate_renderbuffer_rejected_example:
  "(\<exists>s'. GLRenderTarget_ctor env_ok 0 [] (depth_and_depth_stencil 1) = Inl (DepthAttachmentFailed, s')
      \<and> gl_renderbuffer s' \<noteq> 0 \<and> gl_names s' = gl_renderbuffer s'
      \<and> HasDepthAttachment s' \<and> \<not> HasStencilAttachment s')
   \<and> (\<exists>s'. GLRenderTarget_ctor env_ok 0 [] (depth_and_depth_stencil 4) = Inl (DepthAttachmentFailed, s')
      \<and> gl_renderbuffer s' \<noteq> 0 \<and> gl_names s' = gl_renderbuffer s'
      \<and> HasDepthAttachment s' \<and> \<not> HasStencilAttachment s')"
proof -
  have k: "att_type (attachment Depth None) \<noteq> Color" "att_type (attachment DepthStencil None) \<noteq> Color"
    by (simp_all add: attachment_def)
  have few: "\<And>n. length (filter (\<lambda>a. att_type a = Color) (desc_attachments (depth_and_depth_stencil n))) \<le> 32"
    by (simp add: depth_and_depth_stencil_buffers)
  have ok: "\<And>n. 1 < sint (desc_sampleCount (depth_and_depth_stencil n))
        \<and> \<not> desc_customMultiSampling (depth_and_depth_stencil n) \<longrightarrow>
        (\<forall>a\<in>set (desc_attachments (depth_and_depth_stencil n)). \<forall>t. att_texture a = Some t \<longrightarrow>
             tex_InternalFormat t \<noteq> GL_DEPTH_COMPONENT \<and> tex_InternalFormat t \<noteq> GL_DEPTH_STENCIL
             \<and> env_mip_resolution_valid env_ok t (att_mipLevel a))
        \<and> length (filter (\<lambda>a. att_texture a \<noteq> None) (desc_attachments (depth_and_depth_stencil n))) \<le> 32
        \<and> (\<forall>cs. env_framebuffer_complete env_ok cs)"
    by (auto simp: depth_and_depth_stencil_buffers env_ok_def depth_and_depth_stencil_def descriptor_def
        color_attachments_def attachment_def color_texture_def GL_RGBA_def GL_DEPTH_COMPONENT_def
        GL_DEPTH_STENCIL_def)
  show ?thesis
    using duplicate_renderbuffer_rejected[where desc = "depth_and_depth_stencil 1" and env = env_ok
          and names = 0 and calls = "[]", OF depth_and_depth_stencil_buffers(1) k few ok]
      duplicate_renderbuffer_rejected[where desc = "depth_and_depth_stencil 4" and env = env_ok
          and names = 0 and calls = "[]", OF depth_and_depth_stencil_buffers(1) k few ok]
    by (simp add: attachment_def)
qed

text \<open>
  Claim C3 says that a descriptor with more than one depth-or-stencil-class attachment fails
  to bind with the duplicate-depth-attachment error: the first is created, the second attempt
  raises, nothing is overridden silently. The code enforces this with two separate tests:
  \<open>MakeFramebufferAttachment\<close> tests the blit mask when a depth texture is attached,
  \<open>CreateAndAttachRenderbuffer\<close> tests only whether the renderbuffer exists. Without
  multi-sampling the renderbuffers come first and set the blit mask, so a depth texture after
  them is rejected. With the secondary multi-sample framebuffer the textures come first, and
  the renderbuffer test does not see them. For a depth attachment with a depth texture and a
  depth-stencil attachment without texture, at 4 samples, the constructor returns a render
  target: the texture is attached as the depth attachment of the primary framebuffer, the
  renderbuffer as the depth-stencil attachment of the multi-sample one, and no error is raised.
  The same descriptor at 1 sample, and two depth textures at 1 and at 4 samples, raise the
  duplicate-depth-attachment error.
\<close>

theorem second_depth_attachment_binds_silently:
  "GLRenderTarget_ctor env_ok 0 [] (depth_texture_and_buffer 4) = Inr both_depth_attached
   \<and> error_of (GLRenderTarget_ctor env_ok 0 [] (depth_texture_and_buffer 4)) = None
   \<and> HasDepthAttachment both_depth_attached \<and> HasStencilAttachment both_depth_attached
   \<and> gl_renderbuffer both_depth_attached = 3
   \<and> error_of (GLRenderTarget_ctor env_ok 0 [] (depth_texture_and_buffer 1))
       = Some DepthAttachmentFailed
   \<and> error_of (GLRenderTarget_ctor env_ok 0 [] (two_depth_textures 1)) = Some DepthAttachmentFailed
   \<and> error_of (GLRenderTarget_ctor env_ok 0 [] (two_depth_textures 4)) = Some DepthAttachmentFailed"
  by code_simp

subsection \<open>The format array\<close>

text \<open>
  Claim C9 says that for a descriptor that passes the colour count check every write into the
  32 cells of \<open>internalFormats\<close> stays below 32. The code does not ensure it: the count
  check counts colour-kind attachments, the write index advances for every attachment with a
  texture. With one depth-kind attachment with a texture and 32 colour-kind attachments with
  textures the count is 32, the check passes, and the 33rd texture is written to cell 32.
\<close>

theorem internalFormats_overrun_at_33_textures:
  "CountColorAttachments_loop (attachment Depth (Some (depth_texture 99)) # color_attachments 32) 0 = 32
   \<and> error_of (GLRenderTarget_ctor env_ok 0 []
        (descriptor (attachment Depth (Some (depth_texture 99)) # color_attachments 32) 1))
      = Some (InternalFormatsOverrun 32)"
  by code_simp

subsection \<open>Blit\<close>

lemma direct_target_built:
  "GLRenderTarget_ctor env_ok 0 [] (descriptor (color_attachments 1) 1) = Inr direct_target"
  by code_simp

text \<open>
  Claim C2 says that on a render target without a secondary multi-sample framebuffer both
  \<open>BlitOntoFramebuffer\<close> and \<open>BlitOntoScreen\<close> are no-ops. \<open>BlitOntoScreen\<close> is not: it does
  not test for the multi-sample framebuffer, and \<open>GetFramebuffer\<close> falls back to the primary
  one. On the target built from one colour texture without multi-sampling it binds, selects
  the read and draw buffers and blits.
\<close>

theorem BlitOntoScreen_direct_counterexample:
  "GLRenderTarget_ctor env_ok 0 [] (descriptor (color_attachments 1) 1) = Inr direct_target
   \<and> gl_framebufferMS direct_target = 0
   \<and> BlitOntoScreen 0 direct_target \<noteq> direct_target
   \<and> gl_calls (BlitOntoScreen 0 direct_target) = gl_calls direct_target @
        [StateManager_BindFramebuffer DRAW_FRAMEBUFFER 0,
         StateManager_BindFramebuffer READ_FRAMEBUFFER 1,
         glReadBuffer GL_COLOR_ATTACHMENT0, glDrawBuffer GL_BACK,
         Framebuffer_Blit 640 480 GL_COLOR_BUFFER_BIT,
         StateManager_BindFramebuffer READ_FRAMEBUFFER 0]"
  by code_simp

text \<open>
  Claim C2 as amended: on a render target without a secondary multi-sample framebuffer
  \<open>BlitOntoFramebuffer\<close> changes nothing and issues no call; \<open>BlitOntoScreen\<close> changes
  nothing exactly when the index is not below the number of colour attachments, and otherwise
  blits that colour attachment of the primary framebuffer onto the back buffer, leaving the
  members as they are.
\<close>

theorem Blit_without_secondary_store:
  assumes "gl_framebufferMS s = 0"
  shows "BlitOntoFramebuffer s = s
    \<and> BlitOntoScreen i s =
        (if i < length (gl_colorAttachments s)
         then s\<lparr> gl_calls := gl_calls s @
                [StateManager_BindFramebuffer DRAW_FRAMEBUFFER 0,
                 StateManager_BindFramebuffer READ_FRAMEBUFFER (gl_framebuffer s),
                 glReadBuffer (gl_colorAttachments s ! i), glDrawBuffer GL_BACK,
                 Framebuffer_Blit (sint (fst (gl_resolution s))) (sint (snd (gl_resolution s)))
                   (gl_blitMask s),
                 StateManager_BindFramebuffer READ_FRAMEBUFFER 0] \<rparr>
         else s)"
  using assms
  by (simp add: BlitOntoFramebuffer_def BlitOntoScreen_def BlitFramebuffer_def GetFramebuffer_ID_def
      emit_def Let_def)

theorem Blit_without_secondary_store_witness:
  "gl_framebufferMS direct_target = 0
   \<and> BlitOntoFramebuffer direct_target = direct_target
   \<and> BlitOntoScreen 1 direct_target = direct_target
   \<and> BlitOntoScreen 0 direct_target = direct_target\<lparr> gl_calls := gl_calls direct_target @
        [StateManager_BindFramebuffer DRAW_FRAMEBUFFER 0,
         StateManager_BindFramebuffer READ_FRAMEBUFFER 1,
         glReadBuffer GL_COLOR_ATTACHMENT0, glDrawBuffer GL_BACK,
         Framebuffer_Blit 640 480 GL_COLOR_BUFFER_BIT,
         StateManager_BindFramebuffer READ_FRAMEBUFFER 0] \<rparr>"
proof -
  have ms: "gl_framebufferMS direct_target = 0"
    by (simp add: direct_target_def)
  show ?thesis
    using ms Blit_without_secondary_store[OF ms, of 0] Blit_without_secondary_store[OF ms, of 1]
    by (simp add: direct_target_def)
qed

end
